theory Spec2Isabelle
  imports Main
begin

section \<open>Data model\<close>

text \<open>
  The orchestrator is the class \<open>WhatsAppManager\<close> together with the store wrapper
  \<open>SupabaseService\<close> and the bulk route of \<open>routes/index.ts\<close>. Every handler is modelled
  as one atomic transformation of the manager's state; the answers of the external
  collaborators during one call (protocol engine, QR renderer, store client) are
  collected in a record \<open>env\<close> that the call receives as an argument.

  Strings are \<open>string\<close>; an optional JavaScript field is an \<open>option\<close>; a test
  \<open>if (s)\<close> on an optional string is \<open>truthy\<close>: absent and empty both fail it.
\<close>

definition truthy :: "string option \<Rightarrow> bool" where
  "truthy s = (case s of None \<Rightarrow> False | Some t \<Rightarrow> t \<noteq> [])"

text \<open>\<open>s.split('@')[0]\<close>: the part before the first \<open>@\<close>.\<close>

definition before_at :: "string \<Rightarrow> string" where
  "before_at s = takeWhile (\<lambda>c. c \<noteq> CHR ''@'') s"

text \<open>\<open>s.includes('@')\<close>.\<close>

definition includes_at :: "string \<Rightarrow> bool" where
  "includes_at s = (CHR ''@'' \<in> set s)"

text \<open>\<open>phone.replace(/\D/g, '')\<close>: only the decimal digits remain.\<close>

definition is_digit :: "char \<Rightarrow> bool" where
  "is_digit c = (c \<in> set ''0123456789'')"

definition strip_non_digits :: "string \<Rightarrow> string" where
  "strip_non_digits s = filter is_digit s"

subsection \<open>The registry entry\<close>

text \<open>
  \<open>interface WhatsAppConnection\<close>. The live socket is represented by its identity, a
  number drawn from a counter each time \<open>makeWASocket\<close> returns; the in-memory store
  bound to the socket carries no behaviour of the manager and is left out.
\<close>

record WhatsAppConnection =
  socket :: nat
  qr :: "string option"
  isConnected :: bool
  userId :: string
  phoneNumber :: "string option"

subsection \<open>Store rows\<close>

datatype message_type = inbound | outbound | automated

text \<open>
  \<open>interface WhatsAppMessage\<close>. The column \<open>message_status\<close> is a string: the manager
  writes \<open>'sent'\<close> and \<open>'delivered'\<close>, and the status handler writes
  \<open>status.toString()\<close>, the decimal form of the engine's numeric status.
\<close>

record WhatsAppMessage =
  clinic_id :: string
  patient_id :: "nat option"
  phone :: string
  msg_type :: message_type
  content :: string
  message_status :: string
  whatsapp_message_id :: "string option"

text \<open>\<open>interface WhatsAppSession\<close>, the columns the manager reads or writes.\<close>

record WhatsAppSession =
  is_connected :: bool
  phone_number :: "string option"

text \<open>\<open>interface UserProfile\<close>: only \<open>id\<close> is used.\<close>

record UserProfile =
  profile_id :: string

text \<open>\<open>interface Patient\<close>; the row id is generated by the store.\<close>

record Patient =
  pat_id :: nat
  pat_clinic_id :: string
  pat_full_name :: string
  pat_phone :: string
  pat_status :: string
  pat_conversion_stage :: string

subsection \<open>Engine values\<close>

text \<open>\<open>ConnectionState.connection\<close> of the engine.\<close>

datatype WAConnectionState = conn_open | conn_connecting | conn_close

text \<open>
  A \<open>connection.update\<close> event: the fields the handler destructures. \<open>upd_statusCode\<close> is
  \<open>(lastDisconnect?.error as Boom)?.output?.statusCode\<close>, absent when any link of the
  chain is.
\<close>

record ConnectionUpdate =
  upd_connection :: "WAConnectionState option"
  upd_statusCode :: "nat option"
  upd_qr :: "string option"

text \<open>\<open>DisconnectReason.loggedOut\<close> of the engine (HTTP-like code 401).\<close>

definition loggedOut :: nat where
  "loggedOut = 401"

text \<open>
  \<open>AnyMessageContent\<close> as \<open>sendMessage\<close> reads it: a \<open>text\<close> and a \<open>caption\<close>. The type
  is an object type, so the branch \<open>typeof content === 'string'\<close> is never taken.
\<close>

record AnyMessageContent =
  text_field :: "string option"
  caption_field :: "string option"

text \<open>
  \<open>proto.IMessage\<close>: the payloads \<open>extractMessageContent\<close> looks at. A media payload is
  present (\<open>Some\<close>) with or without a caption; \<open>other_payload\<close> stands for every
  further payload kind of the engine (audio, sticker, location, ...), which the
  manager never reads.
\<close>

record IMessage =
  conversation :: "string option"
  extendedTextMessage :: "string option option"
  imageMessage :: "string option option"
  videoMessage :: "string option option"
  documentMessage :: "string option option"
  other_payload :: bool

record WAMessage =
  key_remoteJid :: "string option"
  key_fromMe :: bool
  key_id :: "string option"
  message :: "IMessage option"
  pushName :: "string option"
  messageTimestamp :: "int option"

text \<open>
  One entry of a \<open>messages.update\<close> event: \<open>msg.key.id\<close> and \<open>msg.update?.status\<close>. The
  status is the engine's numeric enum \<open>proto.WebMessageInfo.Status\<close> (\<open>ERROR = 0\<close>,
  \<open>PENDING = 1\<close>, \<open>SERVER_ACK = 2\<close>, \<open>DELIVERY_ACK = 3\<close>, \<open>READ = 4\<close>, \<open>PLAYED = 5\<close>).
\<close>

record WAMessageUpdate =
  mu_key_id :: "string option"
  mu_status :: "nat option"

subsection \<open>Events published on the tenant's room\<close>

datatype io_event =
    ev_qr string
  | ev_connection_status bool "string option"
  | ev_new_message string string string "int option"

subsection \<open>The environment of one call\<close>

datatype store_call =
    call_getSession
  | call_updateSessionStatus
  | call_getUserProfile
  | call_selectPatient
  | call_insertPatient
  | call_saveMessage
  | call_updateMessageStatus

text \<open>\<open>socket.sendMessage\<close>: it throws, or returns a message whose \<open>key.id\<close> may be absent.\<close>

datatype send_outcome = send_throws | send_returns "string option"

text \<open>
  \<open>socket.end(undefined)\<close> of the engine: it throws; or the socket is live, and \<open>end\<close>
  closes it and emits \<open>connection.update\<close> with \<open>connection = 'close'\<close> and no error, to
  the handler the manager registered on that socket; or the socket is closed already,
  and \<open>end\<close> returns at once.
\<close>

datatype end_outcome = end_throws | end_closes | end_already_closed

record env =
  engine_open_throws :: bool
  toDataURL :: "string \<Rightarrow> string option"
  socket_user_id :: "string option"
  socket_end :: end_outcome
  socket_sendMessage :: send_outcome
  store_error :: "store_call \<Rightarrow> bool"
  stat_throws :: bool

text \<open>
  \<open>engine_open_throws\<close>: reading the credentials, \<open>fetchLatestBaileysVersion\<close>,
  \<open>makeWASocket\<close> or \<open>store.bind\<close> throws, once the folder of the credentials is there.
  \<open>toDataURL\<close>: \<open>QRCode.toDataURL\<close>, \<open>None\<close> when it rejects. \<open>socket_user_id\<close>:
  \<open>socket.user?.id\<close> when the event is handled. \<open>store_error c\<close>: the store client
  answers the call \<open>c\<close> with an error object. \<open>stat_throws\<close>: \<open>fs.statSync\<close> throws for the
  name it is given, although \<open>readdirSync\<close> listed it (a dangling link, an entry removed
  from outside).
\<close>

subsection \<open>The manager's state\<close>

datatype fs_kind = fs_dir | fs_file

text \<open>
  \<open>connections\<close> is the \<open>Map\<close> of the class. \<open>disk\<close> is the content of \<open>sessionsPath\<close>,
  one entry per name, in the order \<open>readdirSync\<close> lists it; a credential bundle is the
  directory of that name, and what lies inside it is not modelled. The tables are those of the
  store. \<open>timers\<close> holds the pending \<open>setTimeout\<close> callbacks (tenant to reconnect, delay in
  ms), \<open>ended\<close> the sockets whose \<open>end\<close> was called, \<open>wire\<close> the calls of
  \<open>socket.sendMessage\<close> that returned, \<open>emitted\<close> what was published to the rooms.
\<close>

record manager =
  connections :: "string \<rightharpoonup> WhatsAppConnection"
  disk :: "(string \<times> fs_kind) list"
  sessions_tbl :: "string \<rightharpoonup> WhatsAppSession"
  messages_tbl :: "WhatsAppMessage list"
  profiles_tbl :: "string \<rightharpoonup> UserProfile"
  patients_tbl :: "Patient list"
  timers :: "(string \<times> nat) list"
  next_socket :: nat
  ended :: "nat list"
  wire :: "(nat \<times> string \<times> AnyMessageContent) list"
  emitted :: "(string \<times> io_event) list"

text \<open>The state of a fresh process: the constructor's empty map, given disk and store.\<close>

definition boot :: "(string \<times> fs_kind) list \<Rightarrow> (string \<rightharpoonup> WhatsAppSession) \<Rightarrow>
    (string \<rightharpoonup> UserProfile) \<Rightarrow> manager" where
  "boot d s p = \<lparr>connections = Map.empty, disk = d, sessions_tbl = s, messages_tbl = [],
     profiles_tbl = p, patients_tbl = [], timers = [], next_socket = 0, ended = [],
     wire = [], emitted = []\<rparr>"

section \<open>SupabaseService\<close>

text \<open>
  Each method asks the store client and branches on the \<open>error\<close> it returns. The methods
  that catch the error and go on return the state unchanged; \<open>saveMessage\<close> rethrows,
  which is the value \<open>None\<close>. Timestamps are not modelled.
\<close>

definition saveMessage :: "env \<Rightarrow> WhatsAppMessage \<Rightarrow> manager \<Rightarrow> manager option" where
  "saveMessage e m w =
     (if store_error e call_saveMessage then None
      else Some (w\<lparr>messages_tbl := messages_tbl w @ [m]\<rparr>))"

text \<open>\<open>update({message_status}).eq('whatsapp_message_id', messageId)\<close>: every matching row.\<close>

definition updateMessageStatus :: "env \<Rightarrow> string \<Rightarrow> string \<Rightarrow> manager \<Rightarrow> manager" where
  "updateMessageStatus e messageId status w =
     (if store_error e call_updateMessageStatus then w
      else w\<lparr>messages_tbl :=
             map (\<lambda>m. if whatsapp_message_id m = Some messageId
                       then m\<lparr>message_status := status\<rparr> else m)
                 (messages_tbl w)\<rparr>)"

text \<open>\<open>.single()\<close> on the unique column \<open>user_id\<close>: no row is the code PGRST116, \<open>null\<close>.\<close>

definition getSession :: "env \<Rightarrow> string \<Rightarrow> manager \<Rightarrow> WhatsAppSession option" where
  "getSession e u w =
     (if store_error e call_getSession then None else sessions_tbl w u)"

text \<open>\<open>update(...).eq('user_id', userId)\<close>: the row is changed when there is one.\<close>

definition updateSessionStatus :: "env \<Rightarrow> string \<Rightarrow> bool \<Rightarrow> string option \<Rightarrow> manager \<Rightarrow> manager" where
  "updateSessionStatus e u c p w =
     (if store_error e call_updateSessionStatus then w
      else case sessions_tbl w u of
             None \<Rightarrow> w
           | Some r \<Rightarrow>
               w\<lparr>sessions_tbl := (sessions_tbl w)(u \<mapsto>
                    r\<lparr>is_connected := c,
                      phone_number := (if truthy p then p else phone_number r)\<rparr>)\<rparr>)"

definition getUserProfile :: "env \<Rightarrow> string \<Rightarrow> manager \<Rightarrow> UserProfile option" where
  "getUserProfile e u w =
     (if store_error e call_getUserProfile then None else profiles_tbl w u)"

text \<open>
  \<open>findOrCreatePatient\<close>: \<open>.single()\<close> answers PGRST116 unless exactly one row matches,
  and the method then inserts a new lead; any other error, of the select or of the
  insert, is caught and gives \<open>null\<close>.
\<close>

definition findOrCreatePatient ::
    "env \<Rightarrow> string \<Rightarrow> string \<Rightarrow> string option \<Rightarrow> manager \<Rightarrow> Patient option \<times> manager" where
  "findOrCreatePatient e ph clinicId name w =
     (let cleanPhone = strip_non_digits ph in
      if store_error e call_selectPatient then (None, w)
      else case filter (\<lambda>p. pat_phone p = cleanPhone \<and> pat_clinic_id p = clinicId)
                       (patients_tbl w) of
             [p] \<Rightarrow> (Some p, w)
           | _ \<Rightarrow>
               if store_error e call_insertPatient then (None, w)
               else let newPatient = \<lparr>pat_id = length (patients_tbl w),
                                       pat_clinic_id = clinicId,
                                       pat_full_name = (case name of
                                           None \<Rightarrow> ''WhatsApp '' @ cleanPhone
                                         | Some n \<Rightarrow> if n = [] then ''WhatsApp '' @ cleanPhone else n),
                                       pat_phone = cleanPhone,
                                       pat_status = ''active'',
                                       pat_conversion_stage = ''lead''\<rparr>
                    in (Some newPatient, w\<lparr>patients_tbl := patients_tbl w @ [newPatient]\<rparr>))"

section \<open>WhatsAppManager\<close>

definition emit :: "string \<Rightarrow> io_event \<Rightarrow> manager \<Rightarrow> manager" where
  "emit u ev w = w\<lparr>emitted := emitted w @ [(u, ev)]\<rparr>"

text \<open>A write through the reference \<open>conn\<close> obtained from the map: nothing when absent.\<close>

definition modify_conn :: "string \<Rightarrow> (WhatsAppConnection \<Rightarrow> WhatsAppConnection) \<Rightarrow> manager \<Rightarrow> manager" where
  "modify_conn u f w =
     (case connections w u of
        None \<Rightarrow> w
      | Some c \<Rightarrow> w\<lparr>connections := (connections w)(u \<mapsto> f c)\<rparr>)"

subsection \<open>Credentials on disk\<close>

text \<open>
  The manager addresses a tenant's credentials as \<open>path.join(this.sessionsPath, userId)\<close>,
  and the tenant id comes unchecked from the request. A path is the list of its
  segments from the root. \<open>sessionsPath\<close> is \<open>process.env.SESSION_PATH || './sessions'\<close>;
  the image runs in \<open>/app\<close> and creates \<open>/app/sessions\<close>.
\<close>

definition sessionsPath :: "string list" where
  "sessionsPath = [''app'', ''sessions'']"

text \<open>\<open>s.split(c)\<close>.\<close>

fun split_on :: "char \<Rightarrow> string \<Rightarrow> string list" where
  "split_on c [] = [ [] ]"
| "split_on c (x # xs) =
     (if x = c then [] # split_on c xs
      else case split_on c xs of
             [] \<Rightarrow> [ [x] ]
           | s # ss \<Rightarrow> (x # s) # ss)"

text \<open>
  The normalisation of \<open>path.join\<close> on POSIX: an empty segment and \<open>.\<close> are dropped,
  \<open>..\<close> steps to the parent, and the parent of the root is the root.
\<close>

fun walk :: "string list \<Rightarrow> string list \<Rightarrow> string list" where
  "walk p [] = p"
| "walk p (s # ss) =
     (if s = [] \<or> s = ''.'' then walk p ss
      else if s = ''..'' then walk (butlast p) ss
      else walk (p @ [s]) ss)"

definition session_dir :: "string \<Rightarrow> string list" where
  "session_dir u = walk sessionsPath (split_on CHR ''/'' u)"

text \<open>\<open>at_or_below p q\<close>: the path \<open>q\<close> is \<open>p\<close> or lies below it.\<close>

definition at_or_below :: "string list \<Rightarrow> string list \<Rightarrow> bool" where
  "at_or_below p q = (take (length p) q = p)"

text \<open>
  What \<open>stat\<close> finds at a path: the sessions directory and the directories above it
  are directories; a path that an entry of the listing names has the kind of that
  entry; of any other path the listing knows nothing.
\<close>

definition stat_path :: "string list \<Rightarrow> (string \<times> fs_kind) list \<Rightarrow> fs_kind option" where
  "stat_path p d =
     (if at_or_below p sessionsPath then Some fs_dir
      else map_of (map (\<lambda>entry. (session_dir (fst entry), snd entry)) d) p)"

text \<open>\<open>fs.existsSync\<close>: the path is there when the listing has something at or below it.\<close>

definition path_exists :: "string list \<Rightarrow> (string \<times> fs_kind) list \<Rightarrow> bool" where
  "path_exists p d =
     (at_or_below p sessionsPath \<or> list_ex (\<lambda>entry. at_or_below p (session_dir (fst entry))) d)"

text \<open>
  \<open>useMultiFileAuthState(folder)\<close> of the engine: a folder that exists is used, a
  file in its place is an error, otherwise the folder is created with its missing
  parents (\<open>mkdir\<close>, recursive), which adds the first segment below the sessions
  directory to the listing when it is not there, and fails when that segment is a file.
  What the engine finds inside an entry or outside the sessions directory is not in the
  listing; a failure there is part of \<open>engine_open_throws\<close>.
\<close>

definition useMultiFileAuthState :: "string \<Rightarrow> manager \<Rightarrow> manager option" where
  "useMultiFileAuthState u w =
     (case stat_path (session_dir u) (disk w) of
        Some fs_dir \<Rightarrow> Some w
      | Some fs_file \<Rightarrow> None
      | None \<Rightarrow>
          if at_or_below sessionsPath (session_dir u)
          then case drop (length sessionsPath) (session_dir u) of
                 [] \<Rightarrow> Some w
               | seg # below \<Rightarrow>
                   (case stat_path (sessionsPath @ [seg]) (disk w) of
                      Some fs_file \<Rightarrow> None
                    | Some fs_dir \<Rightarrow> Some w
                    | None \<Rightarrow> Some (w\<lparr>disk := disk w @ [(seg, fs_dir)]\<rparr>))
          else Some w)"

text \<open>
  \<open>clearUserSession\<close>: \<open>rmSync\<close>, recursive and forced, removes the path and everything
  below it, so every entry of the listing at or below the path goes. The process owns
  the sessions directory (the image hands \<open>/app\<close> to the user it runs as), and a refusal
  of the file system is not modelled.
\<close>

definition clearUserSession :: "string \<Rightarrow> manager \<Rightarrow> manager" where
  "clearUserSession u w =
     (if path_exists (session_dir u) (disk w)
      then w\<lparr>disk := filter (\<lambda>entry. \<not> at_or_below (session_dir u) (session_dir (fst entry)))
                            (disk w)\<rparr>
      else w)"

subsection \<open>connectUser\<close>

record connect_result =
  cr_success :: bool
  cr_message :: string

definition connectUser :: "env \<Rightarrow> string \<Rightarrow> manager \<Rightarrow> connect_result \<times> manager" where
  "connectUser e u w =
     (if (case connections w u of None \<Rightarrow> False | Some conn \<Rightarrow> isConnected conn)
      then (\<lparr>cr_success = True, cr_message = ''Already connected''\<rparr>, w)
      else case useMultiFileAuthState u w of
             None \<Rightarrow> (\<lparr>cr_success = False, cr_message = ''Failed to connect''\<rparr>, w)
           | Some w1 \<Rightarrow>
               if engine_open_throws e
               then (\<lparr>cr_success = False, cr_message = ''Failed to connect''\<rparr>, w1)
               else (\<lparr>cr_success = True, cr_message = ''Connection initiated''\<rparr>,
                     w1\<lparr>connections := (connections w1)(u \<mapsto>
                            \<lparr>socket = next_socket w1, qr = None, isConnected = False,
                             userId = u, phoneNumber = None\<rparr>),
                        next_socket := Suc (next_socket w1)\<rparr>))"

subsection \<open>The handler of connection.update\<close>

definition qr_branch :: "env \<Rightarrow> string \<Rightarrow> ConnectionUpdate \<Rightarrow> manager \<Rightarrow> manager" where
  "qr_branch e u upd w =
     (case upd_qr upd of
        None \<Rightarrow> w
      | Some q \<Rightarrow>
          if q = [] then w
          else case toDataURL e q of
                 None \<Rightarrow> w
               | Some qrCode \<Rightarrow>
                   emit u (ev_qr qrCode) (modify_conn u (\<lambda>c. c\<lparr>qr := Some qrCode\<rparr>) w))"

definition close_branch :: "env \<Rightarrow> string \<Rightarrow> ConnectionUpdate \<Rightarrow> manager \<Rightarrow> manager" where
  "close_branch e u upd w =
     (if upd_connection upd = Some conn_close
      then let shouldReconnect = (upd_statusCode upd \<noteq> Some loggedOut);
               w1 = modify_conn u (\<lambda>c. c\<lparr>isConnected := False\<rparr>) w;
               w2 = updateSessionStatus e u False None w1;
               w3 = emit u (ev_connection_status False None) w2
           in if shouldReconnect
              then w3\<lparr>timers := timers w3 @ [(u, 5000)]\<rparr>
              else clearUserSession u (w3\<lparr>connections := (connections w3)(u := None)\<rparr>)
      else w)"

definition open_branch :: "env \<Rightarrow> string \<Rightarrow> ConnectionUpdate \<Rightarrow> manager \<Rightarrow> manager" where
  "open_branch e u upd w =
     (if upd_connection upd = Some conn_open
      then let number = map_option before_at (socket_user_id e);
               w1 = modify_conn u
                      (\<lambda>c. c\<lparr>isConnected := True, phoneNumber := number, qr := None\<rparr>) w;
               w2 = updateSessionStatus e u True number w1
           in emit u (ev_connection_status True number) w2
      else w)"

definition on_connection_update :: "env \<Rightarrow> string \<Rightarrow> ConnectionUpdate \<Rightarrow> manager \<Rightarrow> manager" where
  "on_connection_update e u upd w =
     open_branch e u upd (close_branch e u upd (qr_branch e u upd w))"

text \<open>A pending reconnection timer fires: the oldest one, all delays being equal.\<close>

definition fire_timer :: "env \<Rightarrow> manager \<Rightarrow> manager" where
  "fire_timer e w =
     (case timers w of
        [] \<Rightarrow> w
      | (u, d) # rest \<Rightarrow> snd (connectUser e u (w\<lparr>timers := rest\<rparr>)))"

subsection \<open>disconnectUser and status\<close>

text \<open>
  \<open>disconnectUser\<close>. When the socket is live, \<open>socket.end\<close> emits the close event
  before it returns, and the manager's own handler takes it, with no status code.
\<close>

definition teardown_close :: ConnectionUpdate where
  "teardown_close = \<lparr>upd_connection = Some conn_close, upd_statusCode = None, upd_qr = None\<rparr>"

definition disconnectUser :: "env \<Rightarrow> string \<Rightarrow> manager \<Rightarrow> bool \<times> manager" where
  "disconnectUser e u w =
     (case connections w u of
        Some conn \<Rightarrow>
          (case socket_end e of
             end_throws \<Rightarrow> (False, w)
           | end_closes \<Rightarrow>
               (let w0 = on_connection_update e u teardown_close w
                in (True, clearUserSession u (updateSessionStatus e u False None
                      (w0\<lparr>ended := ended w0 @ [socket conn],
                          connections := (connections w0)(u := None)\<rparr>))))
           | end_already_closed \<Rightarrow>
               (True, clearUserSession u (updateSessionStatus e u False None
                  (w\<lparr>ended := ended w @ [socket conn],
                     connections := (connections w)(u := None)\<rparr>))))
      | None \<Rightarrow> (True, clearUserSession u (updateSessionStatus e u False None w)))"

record connection_status =
  st_connected :: bool
  st_phoneNumber :: "string option"
  st_qr :: "string option"

definition getConnectionStatus :: "string \<Rightarrow> manager \<Rightarrow> connection_status" where
  "getConnectionStatus u w =
     (case connections w u of
        None \<Rightarrow> \<lparr>st_connected = False, st_phoneNumber = None, st_qr = None\<rparr>
      | Some c \<Rightarrow> \<lparr>st_connected = isConnected c, st_phoneNumber = phoneNumber c, st_qr = qr c\<rparr>)"

subsection \<open>Inbound messages\<close>

text \<open>\<open>x?.y\<close> on an optional object with an optional field.\<close>

definition chain :: "'a option option \<Rightarrow> 'a option" where
  "chain x = (case x of None \<Rightarrow> None | Some y \<Rightarrow> y)"

definition extractMessageContent :: "WAMessage \<Rightarrow> string option" where
  "extractMessageContent m =
     (case message m of
        None \<Rightarrow> None
      | Some msg \<Rightarrow>
          if truthy (conversation msg) then conversation msg
          else if truthy (chain (extendedTextMessage msg)) then chain (extendedTextMessage msg)
          else if truthy (chain (imageMessage msg)) then chain (imageMessage msg)
          else if truthy (chain (videoMessage msg)) then chain (videoMessage msg)
          else if truthy (chain (documentMessage msg)) then chain (documentMessage msg)
          else None)"

text \<open>
  \<open>handleIncomingMessage\<close>. An absent \<open>remoteJid\<close> makes \<open>from.split\<close> throw, and a
  failed \<open>saveMessage\<close> throws too: the \<open>catch\<close> logs, and what was written before stays.
\<close>

definition handleIncomingMessage :: "env \<Rightarrow> string \<Rightarrow> WAMessage \<Rightarrow> manager \<Rightarrow> manager" where
  "handleIncomingMessage e u m w =
     (if message m = None \<or> key_fromMe m then w
      else case extractMessageContent m of
             None \<Rightarrow> w
           | Some messageContent \<Rightarrow>
               if messageContent = [] then w
               else case key_remoteJid m of
                      None \<Rightarrow> w
                    | Some from \<Rightarrow>
                        let number = before_at from;
                            name = (if truthy (pushName m) then the (pushName m) else number)
                        in case getUserProfile e u w of
                             None \<Rightarrow> w
                           | Some profile \<Rightarrow>
                               let (patient, w1) =
                                     findOrCreatePatient e number (profile_id profile) (Some name) w
                               in case saveMessage e
                                         \<lparr>clinic_id = profile_id profile,
                                          patient_id = map_option pat_id patient,
                                          phone = number,
                                          msg_type = inbound,
                                          content = messageContent,
                                          message_status = ''delivered'',
                                          whatsapp_message_id = key_id m\<rparr> w1 of
                                    None \<Rightarrow> w1
                                  | Some w2 \<Rightarrow>
                                      emit u (ev_new_message number messageContent name
                                                (messageTimestamp m)) w2)"

text \<open>The handler of \<open>messages.upsert\<close>: one call per message, in order.\<close>

fun on_messages_upsert :: "(nat \<Rightarrow> env) \<Rightarrow> nat \<Rightarrow> string \<Rightarrow> WAMessage list \<Rightarrow> manager \<Rightarrow> manager" where
  "on_messages_upsert es i u [] w = w"
| "on_messages_upsert es i u (m # ms) w =
     on_messages_upsert es (Suc i) u ms (handleIncomingMessage (es i) u m w)"

subsection \<open>Status updates\<close>

text \<open>\<open>Number.prototype.toString()\<close> on a non-negative integer.\<close>

fun toString :: "nat \<Rightarrow> string" where
  "toString n =
     (if n < 10 then [''0123456789'' ! n]
      else toString (n div 10) @ [''0123456789'' ! (n mod 10)])"

declare toString.simps [simp del]

text \<open>
  One entry of \<open>messages.update\<close>. The test \<open>if (msg.update?.status)\<close> fails for an
  absent status and for the status 0. An absent \<open>key.id\<close> matches no row.
\<close>

definition handle_status_update :: "env \<Rightarrow> WAMessageUpdate \<Rightarrow> manager \<Rightarrow> manager" where
  "handle_status_update e msg w =
     (case mu_status msg of
        None \<Rightarrow> w
      | Some st \<Rightarrow>
          if st = 0 then w
          else case mu_key_id msg of
                 None \<Rightarrow> w
               | Some i \<Rightarrow> updateMessageStatus e i (toString st) w)"

fun on_messages_update :: "(nat \<Rightarrow> env) \<Rightarrow> nat \<Rightarrow> WAMessageUpdate list \<Rightarrow> manager \<Rightarrow> manager" where
  "on_messages_update es i [] w = w"
| "on_messages_update es i (m # ms) w =
     on_messages_update es (Suc i) ms (handle_status_update (es i) m w)"

subsection \<open>sendMessage\<close>

record send_result =
  sr_success :: bool
  sr_messageId :: "string option"
  sr_error :: "string option"

definition messageText :: "AnyMessageContent \<Rightarrow> string" where
  "messageText c =
     (if truthy (text_field c) then the (text_field c)
      else if truthy (caption_field c) then the (caption_field c)
      else ''Media message'')"

definition sendMessage ::
    "env \<Rightarrow> string \<Rightarrow> string \<Rightarrow> AnyMessageContent \<Rightarrow> manager \<Rightarrow> send_result \<times> manager" where
  "sendMessage e u to c w =
     (case connections w u of
        None \<Rightarrow> (\<lparr>sr_success = False, sr_messageId = None,
                  sr_error = Some ''Not connected to WhatsApp''\<rparr>, w)
      | Some conn \<Rightarrow>
          if \<not> isConnected conn
          then (\<lparr>sr_success = False, sr_messageId = None,
                 sr_error = Some ''Not connected to WhatsApp''\<rparr>, w)
          else let jid = (if includes_at to then to else to @ ''@s.whatsapp.net'') in
               case socket_sendMessage e of
                 send_throws \<Rightarrow>
                   (\<lparr>sr_success = False, sr_messageId = None,
                     sr_error = Some ''Failed to send message''\<rparr>, w)
               | send_returns sentId \<Rightarrow>
                   let w1 = w\<lparr>wire := wire w @ [(socket conn, jid, c)]\<rparr> in
                   case getUserProfile e u w1 of
                     None \<Rightarrow> (\<lparr>sr_success = True, sr_messageId = sentId, sr_error = None\<rparr>, w1)
                   | Some profile \<Rightarrow>
                       (case saveMessage e
                               \<lparr>clinic_id = profile_id profile,
                                patient_id = None,
                                phone = to,
                                msg_type = outbound,
                                content = messageText c,
                                message_status = ''sent'',
                                whatsapp_message_id = sentId\<rparr> w1 of
                          None \<Rightarrow> (\<lparr>sr_success = False, sr_messageId = None,
                                    sr_error = Some ''Failed to send message''\<rparr>, w1)
                        | Some w2 \<Rightarrow>
                            (\<lparr>sr_success = True, sr_messageId = sentId, sr_error = None\<rparr>, w2)))"

section \<open>The route POST /api/send-bulk\<close>

text \<open>
  The request after \<open>authMiddleware.authenticate\<close>: \<open>req.userId\<close> and the body.
  \<open>req_recipients\<close> is \<open>None\<close> when the field is missing or not an array; \<open>req_delay\<close> is
  \<open>None\<close> when the field is missing, and the destructuring default 1000 applies.
\<close>

record bulk_request =
  req_userId :: "string option"
  req_recipients :: "string list option"
  req_message :: "string option"
  req_delay :: "int option"

record bulk_entry =
  recipient :: string
  outcome :: send_result

text \<open>What the loop awaits, in order: a call of \<open>sendMessage\<close>, or a sleep.\<close>

datatype bulk_step = dispatch string | sleep int

datatype bulk_response =
    bad_request
  | ok_response nat nat "bulk_entry list"

fun bulk_loop :: "(nat \<Rightarrow> env) \<Rightarrow> nat \<Rightarrow> string \<Rightarrow> string \<Rightarrow> int \<Rightarrow> string list \<Rightarrow> manager \<Rightarrow>
    bulk_entry list \<times> bulk_step list \<times> manager" where
  "bulk_loop es i u msg delayMs [] w = ([], [], w)"
| "bulk_loop es i u msg delayMs (r # rs) w =
     (let (result, w1) = sendMessage (es i) u r \<lparr>text_field = Some msg, caption_field = None\<rparr> w;
          (results, steps, w2) = bulk_loop es (Suc i) u msg delayMs rs w1
      in (\<lparr>recipient = r, outcome = result\<rparr> # results,
          dispatch r # (if delayMs > 0 then [sleep delayMs] else []) @ steps,
          w2))"

definition send_bulk :: "(nat \<Rightarrow> env) \<Rightarrow> bulk_request \<Rightarrow> manager \<Rightarrow>
    bulk_response \<times> bulk_step list \<times> manager" where
  "send_bulk es req w =
     (let delayMs = (case req_delay req of None \<Rightarrow> 1000 | Some d \<Rightarrow> d) in
      if \<not> truthy (req_userId req) \<or> req_recipients req = None \<or> \<not> truthy (req_message req)
      then (bad_request, [], w)
      else let (results, steps, w1) =
                 bulk_loop es 0 (the (req_userId req)) (the (req_message req)) delayMs
                           (the (req_recipients req)) w
           in (ok_response (length (filter (\<lambda>r. sr_success (outcome r)) results))
                           (length (filter (\<lambda>r. \<not> sr_success (outcome r)) results))
                           results,
               steps, w1))"

section \<open>Bootstrap\<close>

text \<open>
  \<open>restoreActiveSessions\<close>: the names are read once; \<open>statSync\<close> of a listed name may
  throw, and the \<open>catch\<close> around the loop then ends the loop.
\<close>

fun restore_loop :: "(nat \<Rightarrow> env) \<Rightarrow> nat \<Rightarrow> string list \<Rightarrow> manager \<Rightarrow> manager" where
  "restore_loop es i [] w = w"
| "restore_loop es i (u # us) w =
     (if stat_throws (es i) then w
      else case stat_path (session_dir u) (disk w) of
             None \<Rightarrow> w
           | Some fs_file \<Rightarrow> restore_loop es (Suc i) us w
           | Some fs_dir \<Rightarrow>
               (case getSession (es i) u w of
                  None \<Rightarrow> restore_loop es (Suc i) us w
                | Some session \<Rightarrow>
                    if is_connected session
                    then restore_loop es (Suc i) us (snd (connectUser (es i) u w))
                    else restore_loop es (Suc i) us w))"

definition restoreActiveSessions :: "(nat \<Rightarrow> env) \<Rightarrow> manager \<Rightarrow> manager" where
  "restoreActiveSessions es w = restore_loop es 0 (map fst (disk w)) w"

section \<open>Runs of the manager\<close>

text \<open>
  What can happen to a running manager: the public operations, the events of the
  engine, and a reconnection timer that fires. Each comes with the environment it
  meets.
\<close>

datatype op =
    op_connect string
  | op_disconnect string
  | op_connection_update string ConnectionUpdate
  | op_timer
  | op_send string string AnyMessageContent
  | op_message string WAMessage
  | op_status WAMessageUpdate

fun apply_op :: "env \<Rightarrow> op \<Rightarrow> manager \<Rightarrow> manager" where
  "apply_op e (op_connect u) w = snd (connectUser e u w)"
| "apply_op e (op_disconnect u) w = snd (disconnectUser e u w)"
| "apply_op e (op_connection_update u upd) w = on_connection_update e u upd w"
| "apply_op e op_timer w = fire_timer e w"
| "apply_op e (op_send u to c) w = snd (sendMessage e u to c w)"
| "apply_op e (op_message u m) w = handleIncomingMessage e u m w"
| "apply_op e (op_status m) w = handle_status_update e m w"

fun run :: "(env \<times> op) list \<Rightarrow> manager \<Rightarrow> manager" where
  "run [] w = w"
| "run ((e, x) # xs) w = run xs (apply_op e x w)"

text \<open>
  A pairing code is delivered in order when the tenant's session has no identity
  stored: the engine issues codes before the handshake, not after it.
\<close>

fun qr_in_order :: "op \<Rightarrow> manager \<Rightarrow> bool" where
  "qr_in_order (op_connection_update u upd) w =
     (truthy (upd_qr upd) \<longrightarrow>
        (case connections w u of None \<Rightarrow> True | Some c \<Rightarrow> phoneNumber c = None))"
| "qr_in_order x w = True"

fun qr_in_order_run :: "(env \<times> op) list \<Rightarrow> manager \<Rightarrow> bool" where
  "qr_in_order_run [] w = True"
| "qr_in_order_run ((e, x) # xs) w = (qr_in_order x w \<and> qr_in_order_run xs (apply_op e x w))"

section \<open>Notions the properties use\<close>

text \<open>The test \<open>session && session.is_connected\<close> of the bootstrap, on the stored row.\<close>

definition persisted_connected :: "string \<Rightarrow> manager \<Rightarrow> bool" where
  "persisted_connected u w =
     (case sessions_tbl w u of None \<Rightarrow> False | Some r \<Rightarrow> is_connected r)"

text \<open>
  A tenant the bootstrap reconnects: \<open>statSync\<close> answers for its name, with a directory,
  and the stored session reads connected, as \<open>getSession\<close> answers it.
\<close>

definition restorable :: "env \<Rightarrow> string \<Rightarrow> manager \<Rightarrow> bool" where
  "restorable e u w =
     (\<not> stat_throws e \<and> stat_path (session_dir u) (disk w) = Some fs_dir \<and>
      (case getSession e u w of None \<Rightarrow> False | Some r \<Rightarrow> is_connected r))"

text \<open>
  The payload shapes the specification names, in its words: direct text, extended or
  styled text, a caption on an image, a video or a document. A text counts when it is
  not empty.
\<close>

definition spec_textual :: "IMessage \<Rightarrow> bool" where
  "spec_textual msg =
     (truthy (conversation msg)
      \<or> (\<exists>t. extendedTextMessage msg = Some (Some t) \<and> t \<noteq> [])
      \<or> (\<exists>t. imageMessage msg = Some (Some t) \<and> t \<noteq> [])
      \<or> (\<exists>t. videoMessage msg = Some (Some t) \<and> t \<noteq> [])
      \<or> (\<exists>t. documentMessage msg = Some (Some t) \<and> t \<noteq> []))"

text \<open>
  The single sends of a bulk request as operations of a run: destination \<open>k\<close> of the
  list meets the environment \<open>es k\<close>.
\<close>

definition bulk_ops :: "(nat \<Rightarrow> env) \<Rightarrow> nat \<Rightarrow> string \<Rightarrow> string \<Rightarrow> string list \<Rightarrow> (env \<times> op) list" where
  "bulk_ops es i u msg rs =
     map (\<lambda>(k, r). (es k, op_send u r \<lparr>text_field = Some msg, caption_field = None\<rparr>))
         (enumerate i rs)"

text \<open>What the bulk loop awaits for one destination.\<close>

definition steps_for :: "int \<Rightarrow> string \<Rightarrow> bulk_step list" where
  "steps_for delayMs r = dispatch r # (if delayMs > 0 then [sleep delayMs] else [])"

section \<open>Concrete scenarios\<close>

definition env_ok :: env where
  "env_ok = \<lparr>engine_open_throws = False,
             toDataURL = (\<lambda>q. Some (''data:image/png;base64,'' @ q)),
             socket_user_id = Some ''5511999999999:7@s.whatsapp.net'',
             socket_end = end_closes,
             socket_sendMessage = send_returns (Some ''3EB0A1''),
             store_error = (\<lambda>c. False),
             stat_throws = False\<rparr>"

text \<open>The socket is closed already; the store is down; \<open>statSync\<close> throws.\<close>

definition env_socket_closed :: env where
  "env_socket_closed = env_ok\<lparr>socket_end := end_already_closed\<rparr>"

definition env_store_down :: env where
  "env_store_down = env_ok\<lparr>store_error := (\<lambda>c. True)\<rparr>"

definition env_stat_fails :: env where
  "env_stat_fails = env_ok\<lparr>stat_throws := True\<rparr>"

definition env_send_fails :: env where
  "env_send_fails = env_ok\<lparr>socket_sendMessage := send_throws\<rparr>"

definition env_open_fails :: env where
  "env_open_fails = env_ok\<lparr>engine_open_throws := True\<rparr>"

definition upd_qr_code :: ConnectionUpdate where
  "upd_qr_code = \<lparr>upd_connection = None, upd_statusCode = None, upd_qr = Some ''2@abc''\<rparr>"

definition upd_open :: ConnectionUpdate where
  "upd_open = \<lparr>upd_connection = Some conn_open, upd_statusCode = None, upd_qr = None\<rparr>"

definition upd_close :: "nat option \<Rightarrow> ConnectionUpdate" where
  "upd_close code = \<lparr>upd_connection = Some conn_close, upd_statusCode = code, upd_qr = None\<rparr>"

text \<open>A fresh process whose store knows the tenant \<open>u1\<close>, and one whose store is empty.\<close>

definition fresh :: manager where
  "fresh = boot [] [''u1'' \<mapsto> \<lparr>is_connected = False, phone_number = None\<rparr>]
                  [''u1'' \<mapsto> \<lparr>profile_id = ''clinic1''\<rparr>]"

definition fresh_empty :: manager where
  "fresh_empty = boot [] Map.empty Map.empty"

definition to_pairing :: "(env \<times> op) list" where
  "to_pairing = [(env_ok, op_connect ''u1''), (env_ok, op_connection_update ''u1'' upd_qr_code)]"

definition to_connected :: "(env \<times> op) list" where
  "to_connected = to_pairing @ [(env_ok, op_connection_update ''u1'' upd_open)]"

definition s_pairing :: manager where
  "s_pairing = run to_pairing fresh"

definition s_connected :: manager where
  "s_connected = run to_connected fresh"

definition s_connected_empty :: manager where
  "s_connected_empty = run to_connected fresh_empty"



definition s_restarted :: manager where
  "s_restarted = boot [(''u1'', fs_dir), (''u2'', fs_dir)]
                      [''u1'' \<mapsto> \<lparr>is_connected = True, phone_number = Some ''5511999999999:7''\<rparr>]
                      [''u1'' \<mapsto> \<lparr>profile_id = ''clinic1''\<rparr>]"

text \<open>No session shows a pairing code and an identity at once.\<close>

definition qr_identity_exclusive :: "manager \<Rightarrow> bool" where
  "qr_identity_exclusive w =
     (\<forall>u c. connections w u = Some c \<longrightarrow> qr c = None \<or> phoneNumber c = None)"

definition to_code_after_open :: "(env \<times> op) list" where
  "to_code_after_open = to_connected @ [(env_ok, op_connection_update ''u1'' upd_qr_code)]"

text \<open>Two sends by the connected tenant; inbound messages of three shapes.\<close>

definition env_second :: env where
  "env_second = env_ok\<lparr>socket_sendMessage := send_returns (Some ''3EB0B2'')\<rparr>"

definition text_of :: "string \<Rightarrow> AnyMessageContent" where
  "text_of t = \<lparr>text_field = Some t, caption_field = None\<rparr>"

definition to_sent :: "(env \<times> op) list" where
  "to_sent = to_connected @
     [(env_ok, op_send ''u1'' ''5511888888888'' (text_of ''hi'')),
      (env_second, op_send ''u1'' ''5511777777777@s.whatsapp.net'' (text_of ''ola''))]"

definition s_sent :: manager where
  "s_sent = run to_sent fresh"

definition no_payload :: IMessage where
  "no_payload = \<lparr>conversation = None, extendedTextMessage = None, imageMessage = None,
                 videoMessage = None, documentMessage = None, other_payload = False\<rparr>"

definition incoming :: "IMessage \<Rightarrow> WAMessage" where
  "incoming msg = \<lparr>key_remoteJid = Some ''5511888888888@s.whatsapp.net'', key_fromMe = False,
                   key_id = Some ''A1B2'', message = Some msg, pushName = Some ''Ana'',
                   messageTimestamp = Some 1700000000\<rparr>"

definition m_sticker :: WAMessage where
  "m_sticker = incoming (no_payload\<lparr>other_payload := True\<rparr>)"

definition m_bare_image :: WAMessage where
  "m_bare_image = incoming (no_payload\<lparr>imageMessage := Some None\<rparr>)"

definition m_captioned :: WAMessage where
  "m_captioned = incoming (no_payload\<lparr>imageMessage := Some (Some ''exame'')\<rparr>)"

text \<open>
  A bulk request for two destinations where the engine fails the second send; a boot
  over five directory entries where opening the engine fails for the first tenant.
\<close>

definition second_send_fails :: "nat \<Rightarrow> env" where
  "second_send_fails i = (if i = 1 then env_send_fails else env_ok)"

definition bulk_two :: "int option \<Rightarrow> bulk_request" where
  "bulk_two d = \<lparr>req_userId = Some ''u1'', req_recipients = Some [''111'', ''222''],
                 req_message = Some ''hi'', req_delay = d\<rparr>"

definition first_open_fails :: "nat \<Rightarrow> env" where
  "first_open_fails i = (if i = 0 then env_open_fails else env_ok)"

definition first_stat_fails :: "nat \<Rightarrow> env" where
  "first_stat_fails i = (if i = 0 then env_stat_fails else env_ok)"

definition s_boot_many :: manager where
  "s_boot_many =
     boot [(''u0'', fs_dir), (''notes.txt'', fs_file), (''u1'', fs_dir), (''u2'', fs_dir),
           (''u3'', fs_dir)]
          [''u0'' \<mapsto> \<lparr>is_connected = True, phone_number = None\<rparr>,
           ''u1'' \<mapsto> \<lparr>is_connected = True, phone_number = None\<rparr>,
           ''u2'' \<mapsto> \<lparr>is_connected = False, phone_number = None\<rparr>,
           ''u3'' \<mapsto> \<lparr>is_connected = True, phone_number = None\<rparr>]
          Map.empty"

section \<open>Evaluation of the scenarios\<close>

lemmas model_defs =
  truthy_def before_at_def includes_at_def is_digit_def strip_non_digits_def
  saveMessage_def updateMessageStatus_def getSession_def updateSessionStatus_def
  getUserProfile_def findOrCreatePatient_def emit_def modify_conn_def
  useMultiFileAuthState_def clearUserSession_def connectUser_def qr_branch_def
  close_branch_def open_branch_def on_connection_update_def fire_timer_def
  disconnectUser_def getConnectionStatus_def chain_def extractMessageContent_def
  handleIncomingMessage_def handle_status_update_def messageText_def sendMessage_def
  send_bulk_def restoreActiveSessions_def loggedOut_def boot_def Let_def
  stat_path_def path_exists_def at_or_below_def sessionsPath_def teardown_close_def

lemmas scenario_defs =
  env_ok_def env_send_fails_def env_open_fails_def upd_qr_code_def upd_open_def
  upd_close_def fresh_def fresh_empty_def to_pairing_def to_connected_def
  s_pairing_def s_connected_def s_connected_empty_def env_socket_closed_def
  env_store_down_def env_stat_fails_def

text \<open>Tenant ids that are plain names address the entry of that name.\<close>

lemma session_dir_names:
  "session_dir ''u0'' = [''app'', ''sessions'', ''u0'']"
  "session_dir ''u1'' = [''app'', ''sessions'', ''u1'']"
  "session_dir ''u2'' = [''app'', ''sessions'', ''u2'']"
  "session_dir ''u3'' = [''app'', ''sessions'', ''u3'']"
  "session_dir ''notes.txt'' = [''app'', ''sessions'', ''notes.txt'']"
  by (simp_all add: session_dir_def sessionsPath_def)

text \<open>Ids that are not: the sessions directory itself, another tenant's entry, a parent.\<close>

lemma session_dir_odd:
  "session_dir ''.'' = [''app'', ''sessions'']"
  "session_dir [] = [''app'', ''sessions'']"
  "session_dir ''x/../u1'' = [''app'', ''sessions'', ''u1'']"
  "session_dir ''u1/'' = [''app'', ''sessions'', ''u1'']"
  "session_dir ''..'' = [''app'']"
  "session_dir ''u1/creds.json'' = [''app'', ''sessions'', ''u1'', ''creds.json'']"
  by (simp_all add: session_dir_def sessionsPath_def)

lemma s_pairing_eq:
  "s_pairing = \<lparr>connections = [''u1'' \<mapsto> \<lparr>socket = 0,
                     qr = Some ''data:image/png;base64,2@abc'', isConnected = False,
                     userId = ''u1'', phoneNumber = None\<rparr>],
                 disk = [(''u1'', fs_dir)],
                 sessions_tbl = [''u1'' \<mapsto> \<lparr>is_connected = False, phone_number = None\<rparr>],
                 messages_tbl = [],
                 profiles_tbl = [''u1'' \<mapsto> \<lparr>profile_id = ''clinic1''\<rparr>],
                 patients_tbl = [], timers = [], next_socket = 1, ended = [], wire = [],
                 emitted = [(''u1'', ev_qr ''data:image/png;base64,2@abc'')]\<rparr>"
  by (simp add: scenario_defs model_defs session_dir_names)

lemma s_connected_eq:
  "s_connected = \<lparr>connections = [''u1'' \<mapsto> \<lparr>socket = 0, qr = None, isConnected = True,
                     userId = ''u1'', phoneNumber = Some ''5511999999999:7''\<rparr>],
                 disk = [(''u1'', fs_dir)],
                 sessions_tbl = [''u1'' \<mapsto> \<lparr>is_connected = True,
                                   phone_number = Some ''5511999999999:7''\<rparr>],
                 messages_tbl = [],
                 profiles_tbl = [''u1'' \<mapsto> \<lparr>profile_id = ''clinic1''\<rparr>],
                 patients_tbl = [], timers = [], next_socket = 1, ended = [], wire = [],
                 emitted = [(''u1'', ev_qr ''data:image/png;base64,2@abc''),
                            (''u1'', ev_connection_status True (Some ''5511999999999:7''))]\<rparr>"
  by (simp add: scenario_defs model_defs session_dir_names)

lemma s_connected_empty_eq:
  "s_connected_empty = \<lparr>connections = [''u1'' \<mapsto> \<lparr>socket = 0, qr = None,
                     isConnected = True, userId = ''u1'',
                     phoneNumber = Some ''5511999999999:7''\<rparr>],
                 disk = [(''u1'', fs_dir)],
                 sessions_tbl = Map.empty,
                 messages_tbl = [],
                 profiles_tbl = Map.empty,
                 patients_tbl = [], timers = [], next_socket = 1, ended = [], wire = [],
                 emitted = [(''u1'', ev_qr ''data:image/png;base64,2@abc''),
                            (''u1'', ev_connection_status True (Some ''5511999999999:7''))]\<rparr>"
  by (simp add: scenario_defs model_defs session_dir_names)

section \<open>C1: connect on an existing session\<close>

text \<open>
  C1, as stated, fails for a session that is still pairing. After \<open>connect(u1)\<close> and a
  pairing code, the registry holds a session on socket 0 that is not connected and
  shows the code; a second \<open>connect(u1)\<close> succeeds, draws a new socket and replaces the
  entry: socket 1, no code.
\<close>

theorem C1_counterexample:
  "map_option isConnected (connections s_pairing ''u1'') = Some False
   \<and> map_option socket (connections s_pairing ''u1'') = Some 0
   \<and> map_option qr (connections s_pairing ''u1'') = Some (Some ''data:image/png;base64,2@abc'')
   \<and> cr_success (fst (connectUser env_ok ''u1'' s_pairing))
   \<and> map_option socket (connections (snd (connectUser env_ok ''u1'' s_pairing)) ''u1'') = Some 1
   \<and> map_option qr (connections (snd (connectUser env_ok ''u1'' s_pairing)) ''u1'') = Some None
   \<and> next_socket (snd (connectUser env_ok ''u1'' s_pairing)) = Suc (next_socket s_pairing)"
  by (simp add: s_pairing_eq connectUser_def useMultiFileAuthState_def env_ok_def
        stat_path_def at_or_below_def sessionsPath_def session_dir_names)

text \<open>
  C1, amended: for every tenant, \<open>connect\<close> on a session that is connected returns
  success with the message \<open>Already connected\<close> and leaves the whole state as it was: no
  socket is drawn, the entry is unchanged, whatever the environment answers.
\<close>

theorem C1_connect_idempotent_when_connected:
  assumes "connections w u = Some c" and "isConnected c"
  shows "connectUser e u w = (\<lparr>cr_success = True, cr_message = ''Already connected''\<rparr>, w)"
  using assms by (simp add: connectUser_def)

theorem C1_witness:
  "connections s_connected ''u1'' =
     Some \<lparr>socket = 0, qr = None, isConnected = True, userId = ''u1'',
           phoneNumber = Some ''5511999999999:7''\<rparr>
   \<and> connectUser env_ok ''u1'' s_connected =
       (\<lparr>cr_success = True, cr_message = ''Already connected''\<rparr>, s_connected)"
proof -
  have h: "connections s_connected ''u1'' =
     Some \<lparr>socket = 0, qr = None, isConnected = True, userId = ''u1'',
           phoneNumber = Some ''5511999999999:7''\<rparr>"
    by (simp add: s_connected_eq)
  show ?thesis
    using h C1_connect_idempotent_when_connected [OF h, of env_ok] by simp
qed

section \<open>What the helpers leave alone\<close>

lemma at_or_below_refl [simp]: "at_or_below p p"
  by (simp add: at_or_below_def)

lemma map_of_filter_out:
  "(\<And>kind. \<not> P (u, kind)) \<Longrightarrow> map_of (filter P d) u = None"
  by (induction d) auto

lemma map_of_filter_keep:
  "(\<And>kind. P (v, kind)) \<Longrightarrow> map_of (filter P d) v = map_of d v"
  by (induction d) auto

lemma not_exists_absent:
  assumes "\<not> path_exists (session_dir u) d"
  shows "map_of d u = None"
proof (rule ccontr)
  assume "map_of d u \<noteq> None"
  then obtain kind where mem: "(u, kind) \<in> set d"
    by (auto dest: map_of_SomeD)
  have "at_or_below (session_dir u) (session_dir (fst (u, kind)))"
    by simp
  with mem have "\<exists>entry \<in> set d. at_or_below (session_dir u) (session_dir (fst entry))"
    by (rule rev_bexI)
  then have "list_ex (\<lambda>entry. at_or_below (session_dir u) (session_dir (fst entry))) d"
    by (simp add: list_ex_iff)
  with assms show False by (simp add: path_exists_def)
qed

lemma clearUserSession_disk_same [simp]: "map_of (disk (clearUserSession u w)) u = None"
  by (simp add: clearUserSession_def map_of_filter_out not_exists_absent)

lemma clearUserSession_disk_other:
  "\<not> at_or_below (session_dir u) (session_dir v) \<Longrightarrow>
   map_of (disk (clearUserSession u w)) v = map_of (disk w) v"
  by (simp add: clearUserSession_def map_of_filter_keep)

lemma clearUserSession_fields [simp]:
  "connections (clearUserSession u w) = connections w"
  "timers (clearUserSession u w) = timers w"
  "sessions_tbl (clearUserSession u w) = sessions_tbl w"
  "messages_tbl (clearUserSession u w) = messages_tbl w"
  "next_socket (clearUserSession u w) = next_socket w"
  "ended (clearUserSession u w) = ended w"
  by (simp_all add: clearUserSession_def)

lemma updateSessionStatus_fields [simp]:
  "connections (updateSessionStatus e u c p w) = connections w"
  "timers (updateSessionStatus e u c p w) = timers w"
  "disk (updateSessionStatus e u c p w) = disk w"
  "messages_tbl (updateSessionStatus e u c p w) = messages_tbl w"
  "next_socket (updateSessionStatus e u c p w) = next_socket w"
  "ended (updateSessionStatus e u c p w) = ended w"
  by (simp_all add: updateSessionStatus_def split: option.splits)

lemma updateSessionStatus_marks:
  "\<not> store_error e call_updateSessionStatus \<Longrightarrow>
   \<not> persisted_connected u (updateSessionStatus e u False p w)"
  by (simp add: updateSessionStatus_def persisted_connected_def split: option.splits)

lemma emit_fields [simp]:
  "connections (emit u ev w) = connections w"
  "timers (emit u ev w) = timers w"
  "disk (emit u ev w) = disk w"
  "sessions_tbl (emit u ev w) = sessions_tbl w"
  "messages_tbl (emit u ev w) = messages_tbl w"
  "next_socket (emit u ev w) = next_socket w"
  "ended (emit u ev w) = ended w"
  by (simp_all add: emit_def)

lemma modify_conn_fields [simp]:
  "timers (modify_conn u f w) = timers w"
  "disk (modify_conn u f w) = disk w"
  "sessions_tbl (modify_conn u f w) = sessions_tbl w"
  "messages_tbl (modify_conn u f w) = messages_tbl w"
  "next_socket (modify_conn u f w) = next_socket w"
  "ended (modify_conn u f w) = ended w"
  by (simp_all add: modify_conn_def split: option.splits)

lemma qr_branch_fields [simp]:
  "timers (qr_branch e u upd w) = timers w"
  "disk (qr_branch e u upd w) = disk w"
  "sessions_tbl (qr_branch e u upd w) = sessions_tbl w"
  "messages_tbl (qr_branch e u upd w) = messages_tbl w"
  "next_socket (qr_branch e u upd w) = next_socket w"
  by (simp_all add: qr_branch_def split: option.splits)


section \<open>C2: the close event\<close>

text \<open>
  C2: when a \<open>connection.update\<close> event with \<open>connection = 'close'\<close> is handled for a
  tenant, then: if the status code of the disconnect reason is \<open>loggedOut\<close>, no timer is
  added, the tenant has no entry in the registry, no entry of that name is left in the
  sessions directory and the status query reports \<open>connected = false\<close>; for every other
  status code, and for an absent one, exactly one timer is added, for that tenant, with
  a delay of 5000 ms.
\<close>

theorem C2_close_policy:
  assumes "upd_connection upd = Some conn_close"
  shows "(upd_statusCode upd = Some loggedOut \<longrightarrow>
            timers (on_connection_update e u upd w) = timers w
          \<and> connections (on_connection_update e u upd w) u = None
          \<and> map_of (disk (on_connection_update e u upd w)) u = None
          \<and> \<not> st_connected (getConnectionStatus u (on_connection_update e u upd w)))
       \<and> (upd_statusCode upd \<noteq> Some loggedOut \<longrightarrow>
            timers (on_connection_update e u upd w) = timers w @ [(u, 5000)])"
  using assms
  by (simp add: on_connection_update_def open_branch_def close_branch_def
        getConnectionStatus_def Let_def)

text \<open>Both cases on the connected tenant \<open>u1\<close>: logged out (401), connection lost (408).\<close>

theorem C2_witness:
  "upd_connection (upd_close (Some 401)) = Some conn_close
   \<and> upd_statusCode (upd_close (Some 401)) = Some loggedOut
   \<and> timers (on_connection_update env_ok ''u1'' (upd_close (Some 401)) s_connected) = []
   \<and> connections (on_connection_update env_ok ''u1'' (upd_close (Some 401)) s_connected) ''u1'' = None
   \<and> map_of (disk (on_connection_update env_ok ''u1'' (upd_close (Some 401)) s_connected)) ''u1'' = None
   \<and> \<not> st_connected (getConnectionStatus ''u1''
          (on_connection_update env_ok ''u1'' (upd_close (Some 401)) s_connected))
   \<and> upd_statusCode (upd_close (Some 408)) \<noteq> Some loggedOut
   \<and> timers (on_connection_update env_ok ''u1'' (upd_close (Some 408)) s_connected) = [(''u1'', 5000)]"
  using C2_close_policy [of "upd_close (Some 401)" env_ok "''u1''" s_connected]
        C2_close_policy [of "upd_close (Some 408)" env_ok "''u1''" s_connected]
  by (simp add: upd_close_def loggedOut_def s_connected_eq)

section \<open>C3: explicit disconnect\<close>





section \<open>C10: disconnect without a session\<close>

text \<open>
  C10, as stated, fails when the store does not take the update: \<open>updateSessionStatus\<close>
  logs the error and returns. After a restart \<open>u1\<close> has no session in memory and a
  stored status that reads connected; with the store down, \<open>disconnect(u1)\<close> returns
  success and the stored status still reads connected.
\<close>

theorem C10_counterexample:
  "connections s_restarted ''u1'' = None
   \<and> persisted_connected ''u1'' s_restarted
   \<and> fst (disconnectUser env_store_down ''u1'' s_restarted)
   \<and> persisted_connected ''u1'' (snd (disconnectUser env_store_down ''u1'' s_restarted))"
  by (simp add: s_restarted_def boot_def env_store_down_def env_ok_def persisted_connected_def
        disconnectUser_def updateSessionStatus_def)

text \<open>
  C10, amended: for a tenant with no entry in the registry, \<open>disconnect\<close> returns
  success and leaves the registry as it was; no entry of the tenant's name is left in
  the sessions directory, and every entry that is not at or below the tenant's path is
  kept; when the store accepts the update, the stored session status of the tenant does
  not read connected; when the store reports an error, the stored sessions are what
  they were.
\<close>

theorem C10_disconnect_absent:
  assumes "connections w u = None"
  shows "fst (disconnectUser e u w)
       \<and> connections (snd (disconnectUser e u w)) = connections w
       \<and> map_of (disk (snd (disconnectUser e u w))) u = None
       \<and> (\<forall>v. \<not> at_or_below (session_dir u) (session_dir v) \<longrightarrow>
              map_of (disk (snd (disconnectUser e u w))) v = map_of (disk w) v)
       \<and> (\<not> store_error e call_updateSessionStatus \<longrightarrow>
            \<not> persisted_connected u (snd (disconnectUser e u w)))
       \<and> (store_error e call_updateSessionStatus \<longrightarrow>
            sessions_tbl (snd (disconnectUser e u w)) = sessions_tbl w)"
  using assms
  by (simp add: disconnectUser_def clearUserSession_disk_other persisted_connected_def
        updateSessionStatus_def split: option.splits)

text \<open>
  After a restart: \<open>u1\<close> has a directory and a stored status that reads connected, and
  no session in memory; the directory of \<open>u2\<close> is not below that of \<open>u1\<close>.
\<close>

theorem C10_witness:
  "connections s_restarted ''u1'' = None
   \<and> persisted_connected ''u1'' s_restarted
   \<and> map_of (disk s_restarted) ''u1'' = Some fs_dir
   \<and> fst (disconnectUser env_ok ''u1'' s_restarted)
   \<and> connections (snd (disconnectUser env_ok ''u1'' s_restarted)) = connections s_restarted
   \<and> map_of (disk (snd (disconnectUser env_ok ''u1'' s_restarted))) ''u1'' = None
   \<and> \<not> at_or_below (session_dir ''u1'') (session_dir ''u2'')
   \<and> map_of (disk (snd (disconnectUser env_ok ''u1'' s_restarted))) ''u2'' = Some fs_dir
   \<and> \<not> store_error env_ok call_updateSessionStatus
   \<and> \<not> persisted_connected ''u1'' (snd (disconnectUser env_ok ''u1'' s_restarted))
   \<and> store_error env_store_down call_updateSessionStatus
   \<and> sessions_tbl (snd (disconnectUser env_store_down ''u1'' s_restarted)) =
       sessions_tbl s_restarted"
  using C10_disconnect_absent [of s_restarted "''u1''" env_ok]
        C10_disconnect_absent [of s_restarted "''u1''" env_store_down]
  by (simp add: s_restarted_def boot_def env_ok_def env_store_down_def persisted_connected_def
        session_dir_names at_or_below_def)

text \<open>
  The tenant id is not checked: the id \<open>.\<close> addresses the sessions directory itself,
  and \<open>disconnect\<close> with it removes the bundle of every tenant.
\<close>

lemma disconnect_dot_removes_all:
  "disk s_restarted = [(''u1'', fs_dir), (''u2'', fs_dir)]
   \<and> disk (snd (disconnectUser env_ok ''.'' s_restarted)) = []"
  by (simp add: s_restarted_def boot_def env_ok_def disconnectUser_def updateSessionStatus_def
        clearUserSession_def path_exists_def at_or_below_def session_dir_odd session_dir_names
        sessionsPath_def)

section \<open>C5: pairing code and identity\<close>

subsection \<open>The registry under each operation\<close>

lemma saveMessage_connections:
  "saveMessage e m w = Some w' \<Longrightarrow> connections w' = connections w"
  by (auto simp: saveMessage_def split: if_splits)

lemma findOrCreatePatient_connections [simp]:
  "connections (snd (findOrCreatePatient e ph cl n w)) = connections w"
  by (simp add: findOrCreatePatient_def Let_def split: list.splits)

lemma sendMessage_connections [simp]:
  "connections (snd (sendMessage e u to c w)) = connections w"
  by (auto simp: sendMessage_def Let_def saveMessage_def
        split: option.splits send_outcome.splits if_splits)

lemma handleIncomingMessage_connections [simp]:
  "connections (handleIncomingMessage e u m w) = connections w"
  by (auto simp: handleIncomingMessage_def Let_def saveMessage_def findOrCreatePatient_def
        split: option.splits if_splits prod.splits list.splits)

lemma handle_status_update_connections [simp]:
  "connections (handle_status_update e m w) = connections w"
  by (simp add: handle_status_update_def updateMessageStatus_def split: option.splits)

subsection \<open>The invariant\<close>

lemma exclusiveI:
  "(\<And>v c. connections w v = Some c \<Longrightarrow> qr c = None \<or> phoneNumber c = None) \<Longrightarrow>
   qr_identity_exclusive w"
  by (simp add: qr_identity_exclusive_def)

lemma exclusiveD:
  "qr_identity_exclusive w \<Longrightarrow> connections w v = Some c \<Longrightarrow>
   qr c = None \<or> phoneNumber c = None"
  by (simp add: qr_identity_exclusive_def)

lemma exclusive_step:
  assumes inv: "qr_identity_exclusive w"
      and step: "\<And>v c. connections w' v = Some c \<Longrightarrow>
                   (qr c = None \<or> phoneNumber c = None) \<or>
                   (\<exists>c0. connections w v = Some c0 \<and> qr c0 = qr c \<and> phoneNumber c0 = phoneNumber c)"
  shows "qr_identity_exclusive w'"
proof (rule exclusiveI)
  fix v c
  assume "connections w' v = Some c"
  from step [OF this] show "qr c = None \<or> phoneNumber c = None"
  proof
    assume "qr c = None \<or> phoneNumber c = None"
    then show ?thesis .
  next
    assume "\<exists>c0. connections w v = Some c0 \<and> qr c0 = qr c \<and> phoneNumber c0 = phoneNumber c"
    then obtain c0 where c0: "connections w v = Some c0" "qr c0 = qr c"
        "phoneNumber c0 = phoneNumber c" by blast
    from exclusiveD [OF inv c0(1)] c0(2,3) show ?thesis by simp
  qed
qed

lemma useMultiFileAuthState_connections:
  "useMultiFileAuthState u w = Some w1 \<Longrightarrow> connections w1 = connections w"
  by (auto simp: useMultiFileAuthState_def
        split: option.splits fs_kind.splits if_splits list.splits)

lemma connectUser_exclusive:
  assumes "qr_identity_exclusive w"
  shows "qr_identity_exclusive (snd (connectUser e u w))"
  using assms
  by (rule exclusive_step)
     (auto simp: connectUser_def dest!: useMultiFileAuthState_connections
        split: option.splits if_splits)

lemma fire_timer_exclusive:
  "qr_identity_exclusive w \<Longrightarrow> qr_identity_exclusive (fire_timer e w)"
proof (cases "timers w")
  case Nil
  then show "qr_identity_exclusive w \<Longrightarrow> qr_identity_exclusive (fire_timer e w)"
    by (simp add: fire_timer_def)
next
  case (Cons t rest)
  assume inv: "qr_identity_exclusive w"
  obtain u d where t: "t = (u, d)" by (cases t)
  have "qr_identity_exclusive (w\<lparr>timers := rest\<rparr>)"
    using inv by (simp add: qr_identity_exclusive_def)
  then have "qr_identity_exclusive (snd (connectUser e u (w\<lparr>timers := rest\<rparr>)))"
    by (rule connectUser_exclusive)
  then show "qr_identity_exclusive (fire_timer e w)"
    using Cons t by (simp add: fire_timer_def)
qed

lemma qr_branch_connections:
  "connections (qr_branch e u upd w) v = Some c \<Longrightarrow>
   (connections w v = Some c) \<or>
   (v = u \<and> truthy (upd_qr upd) \<and> (\<exists>c0 code. connections w u = Some c0 \<and> c = c0\<lparr>qr := Some code\<rparr>))"
  by (auto simp: qr_branch_def modify_conn_def emit_def truthy_def
        split: option.splits if_splits)

lemma qr_branch_exclusive:
  assumes "qr_identity_exclusive w" and "qr_in_order (op_connection_update u upd) w"
  shows "qr_identity_exclusive (qr_branch e u upd w)"
  unfolding qr_identity_exclusive_def
proof (intro allI impI)
  fix v c
  assume "connections (qr_branch e u upd w) v = Some c"
  from qr_branch_connections [OF this]
  show "qr c = None \<or> phoneNumber c = None"
  proof
    assume "connections w v = Some c"
    with assms(1) show ?thesis by (simp add: qr_identity_exclusive_def)
  next
    assume "v = u \<and> truthy (upd_qr upd) \<and>
              (\<exists>c0 code. connections w u = Some c0 \<and> c = c0\<lparr>qr := Some code\<rparr>)"
    then obtain c0 code where "truthy (upd_qr upd)" "connections w u = Some c0"
        "c = c0\<lparr>qr := Some code\<rparr>" by blast
    with assms(2) show ?thesis by simp
  qed
qed

lemma close_branch_exclusive:
  assumes "qr_identity_exclusive w"
  shows "qr_identity_exclusive (close_branch e u upd w)"
  using assms
  by (rule exclusive_step)
     (auto simp: close_branch_def Let_def modify_conn_def split: option.splits if_splits)

lemma open_branch_exclusive:
  assumes "qr_identity_exclusive w"
  shows "qr_identity_exclusive (open_branch e u upd w)"
  using assms
  by (rule exclusive_step)
     (auto simp: open_branch_def Let_def modify_conn_def split: option.splits if_splits)

lemma on_update_exclusive:
  assumes "qr_identity_exclusive w" and "qr_in_order (op_connection_update u upd) w"
  shows "qr_identity_exclusive (on_connection_update e u upd w)"
  using assms
  by (simp add: on_connection_update_def open_branch_exclusive close_branch_exclusive
        qr_branch_exclusive del: qr_in_order.simps)

lemma remove_entry_exclusive:
  assumes "qr_identity_exclusive w" and "connections w' = (connections w)(u := None)"
  shows "qr_identity_exclusive w'"
  using assms(1)
  by (rule exclusive_step) (auto simp: assms(2) split: if_splits)

lemma disconnectUser_exclusive:
  assumes "qr_identity_exclusive w"
  shows "qr_identity_exclusive (snd (disconnectUser e u w))"
proof (cases "connections w u")
  case None
  with assms show ?thesis
    by (simp add: disconnectUser_def qr_identity_exclusive_def)
next
  case (Some conn)
  show ?thesis
  proof (cases "socket_end e")
    case end_throws
    with Some assms show ?thesis by (simp add: disconnectUser_def)
  next
    case end_closes
    have "qr_identity_exclusive (on_connection_update e u teardown_close w)"
      using assms by (rule on_update_exclusive) (simp add: teardown_close_def truthy_def)
    then show ?thesis
      by (rule remove_entry_exclusive) (simp add: disconnectUser_def Some end_closes Let_def)
  next
    case end_already_closed
    from assms show ?thesis
      by (rule remove_entry_exclusive) (simp add: disconnectUser_def Some end_already_closed)
  qed
qed

lemma apply_op_exclusive:
  assumes "qr_identity_exclusive w" and "qr_in_order x w"
  shows "qr_identity_exclusive (apply_op e x w)"
proof (cases x)
  case (op_connect u)
  with assms show ?thesis by (simp add: connectUser_exclusive)
next
  case (op_disconnect u)
  with assms show ?thesis by (simp add: disconnectUser_exclusive)
next
  case (op_connection_update u upd)
  with assms show ?thesis
    by (simp add: on_update_exclusive del: qr_in_order.simps)
next
  case op_timer
  with assms show ?thesis by (simp add: fire_timer_exclusive)
next
  case (op_send u to c)
  with assms show ?thesis by (simp add: qr_identity_exclusive_def)
next
  case (op_message u m)
  with assms show ?thesis by (simp add: qr_identity_exclusive_def)
next
  case (op_status m)
  with assms show ?thesis by (simp add: qr_identity_exclusive_def)
qed

lemma run_exclusive:
  "qr_identity_exclusive w \<Longrightarrow> qr_in_order_run xs w \<Longrightarrow> qr_identity_exclusive (run xs w)"
proof (induction xs arbitrary: w)
  case Nil
  then show ?case by simp
next
  case (Cons a xs)
  obtain e x where a: "a = (e, x)" by (cases a)
  from Cons.prems a have "qr_identity_exclusive (apply_op e x w)"
    by (simp add: apply_op_exclusive)
  moreover from Cons.prems a have "qr_in_order_run xs (apply_op e x w)" by simp
  ultimately show ?case using Cons.IH a by simp
qed

lemma boot_exclusive: "qr_identity_exclusive (boot d s p)"
  by (simp add: qr_identity_exclusive_def boot_def)

lemma open_clears_code:
  assumes "upd_connection upd = Some conn_open"
      and "connections (on_connection_update e u upd w) u = Some c"
  shows "isConnected c \<and> qr c = None"
  using assms
  by (auto simp: on_connection_update_def open_branch_def close_branch_def Let_def
        modify_conn_def split: option.splits)

text \<open>
  C5, as stated, fails: the handler stores a pairing code in whatever entry the registry
  holds for the tenant and does not look at its state. After \<open>connect(u1)\<close>, a pairing
  code and the connection-open event, one more pairing-code event (the engine of a
  socket that an earlier \<open>connect\<close> replaced keeps issuing them) leaves a connected
  session that shows a pairing code and an identity.
\<close>

theorem C5_counterexample:
  "map_option qr (connections (run to_code_after_open fresh) ''u1'')
     = Some (Some ''data:image/png;base64,2@abc'')
   \<and> map_option phoneNumber (connections (run to_code_after_open fresh) ''u1'')
     = Some (Some ''5511999999999:7'')
   \<and> map_option isConnected (connections (run to_code_after_open fresh) ''u1'') = Some True"
  by (simp add: to_code_after_open_def scenario_defs model_defs session_dir_names)

text \<open>
  C5, amended: in every state reached from a fresh process by public operations,
  engine events and timers, where each pairing-code event is handled while the tenant's
  session has no identity stored, no session has both a pairing code and an identity;
  and right after a connection-open event is handled, the tenant's session, when there
  is one, is connected and has no pairing code.
\<close>

theorem C5_code_or_identity:
  "(qr_in_order_run xs (boot d s p) \<longrightarrow>
      (\<forall>u c. connections (run xs (boot d s p)) u = Some c \<longrightarrow>
             qr c = None \<or> phoneNumber c = None))
   \<and> (upd_connection upd = Some conn_open \<longrightarrow>
      (\<forall>c. connections (on_connection_update e u upd w) u = Some c \<longrightarrow>
           isConnected c \<and> qr c = None))"
proof (intro conjI impI allI)
  fix v c
  assume "qr_in_order_run xs (boot d s p)" and "connections (run xs (boot d s p)) v = Some c"
  with run_exclusive [OF boot_exclusive, of xs d s p]
  show "qr c = None \<or> phoneNumber c = None"
    by (simp add: qr_identity_exclusive_def)
next
  fix c
  assume "upd_connection upd = Some conn_open"
     and "connections (on_connection_update e u upd w) u = Some c"
  then show "isConnected c" "qr c = None"
    using open_clears_code by blast+
qed


theorem C5_witness:
  "qr_in_order_run to_connected fresh
   \<and> connections (run to_connected fresh) ''u1'' =
       Some \<lparr>socket = 0, qr = None, isConnected = True, userId = ''u1'',
             phoneNumber = Some ''5511999999999:7''\<rparr>
   \<and> upd_connection upd_open = Some conn_open
   \<and> connections (on_connection_update env_ok ''u1'' upd_open s_pairing) ''u1'' =
       Some \<lparr>socket = 0, qr = None, isConnected = True, userId = ''u1'',
             phoneNumber = Some ''5511999999999:7''\<rparr>"
  using C5_code_or_identity [of to_connected "[]"
          "[''u1'' \<mapsto> \<lparr>is_connected = False, phone_number = None\<rparr>]"
          "[''u1'' \<mapsto> \<lparr>profile_id = ''clinic1''\<rparr>]" upd_open env_ok "''u1''" s_pairing]
  by (simp add: scenario_defs model_defs session_dir_names)

section \<open>C6: what the inbound pipeline extracts\<close>

lemmas msg_defs = no_payload_def incoming_def m_sticker_def m_bare_image_def m_captioned_def

text \<open>
  C6: \<open>extractMessageContent\<close> returns a content exactly when the envelope carries one
  of the shapes the specification names (a direct text, an extended text, a caption on
  an image, a video or a document; a text that is not empty); and when it returns none,
  \<open>handleIncomingMessage\<close> leaves the whole state as it was: no message record, no
  patient, no event.
\<close>

theorem C6_extraction:
  "(extractMessageContent m \<noteq> None) =
     (case message m of None \<Rightarrow> False | Some msg \<Rightarrow> spec_textual msg)
   \<and> (extractMessageContent m = None \<longrightarrow> handleIncomingMessage e u m w = w)"
  by (auto simp: extractMessageContent_def spec_textual_def truthy_def chain_def
        handleIncomingMessage_def split: option.splits)


text \<open>
  A sticker and an image without caption are dropped; an image with a caption is
  extracted and persisted as inbound and delivered.
\<close>

theorem C6_witness:
  "extractMessageContent m_sticker = None
   \<and> extractMessageContent m_bare_image = None
   \<and> handleIncomingMessage env_ok ''u1'' m_sticker s_connected = s_connected
   \<and> handleIncomingMessage env_ok ''u1'' m_bare_image s_connected = s_connected
   \<and> extractMessageContent m_captioned = Some ''exame''
   \<and> (case message m_captioned of None \<Rightarrow> False | Some msg \<Rightarrow> spec_textual msg)
   \<and> messages_tbl (handleIncomingMessage env_ok ''u1'' m_captioned s_connected) =
       [\<lparr>clinic_id = ''clinic1'', patient_id = Some 0, phone = ''5511888888888'',
         msg_type = inbound, content = ''exame'', message_status = ''delivered'',
         whatsapp_message_id = Some ''A1B2''\<rparr>]"
  using C6_extraction [of m_sticker env_ok "''u1''" s_connected]
        C6_extraction [of m_bare_image env_ok "''u1''" s_connected]
        C6_extraction [of m_captioned env_ok "''u1''" s_connected]
  by (simp add: msg_defs model_defs env_ok_def s_connected_eq)

section \<open>C7: status updates\<close>

lemma run_append: "run (xs @ ys) w = run ys (run xs w)"
  by (induction xs arbitrary: w) auto

lemma s_sent_eq:
  "s_sent = \<lparr>connections = [''u1'' \<mapsto> \<lparr>socket = 0, qr = None, isConnected = True,
                     userId = ''u1'', phoneNumber = Some ''5511999999999:7''\<rparr>],
              disk = [(''u1'', fs_dir)],
              sessions_tbl = [''u1'' \<mapsto> \<lparr>is_connected = True,
                                phone_number = Some ''5511999999999:7''\<rparr>],
              messages_tbl =
                [\<lparr>clinic_id = ''clinic1'', patient_id = None, phone = ''5511888888888'',
                  msg_type = outbound, content = ''hi'', message_status = ''sent'',
                  whatsapp_message_id = Some ''3EB0A1''\<rparr>,
                 \<lparr>clinic_id = ''clinic1'', patient_id = None,
                  phone = ''5511777777777@s.whatsapp.net'', msg_type = outbound,
                  content = ''ola'', message_status = ''sent'',
                  whatsapp_message_id = Some ''3EB0B2''\<rparr>],
              profiles_tbl = [''u1'' \<mapsto> \<lparr>profile_id = ''clinic1''\<rparr>],
              patients_tbl = [], timers = [], next_socket = 1, ended = [],
              wire = [(0, ''5511888888888@s.whatsapp.net'', text_of ''hi''),
                      (0, ''5511777777777@s.whatsapp.net'', text_of ''ola'')],
              emitted = [(''u1'', ev_qr ''data:image/png;base64,2@abc''),
                         (''u1'', ev_connection_status True (Some ''5511999999999:7''))]\<rparr>"
proof -
  have split: "s_sent =
      snd (sendMessage env_second ''u1'' ''5511777777777@s.whatsapp.net'' (text_of ''ola'')
        (snd (sendMessage env_ok ''u1'' ''5511888888888'' (text_of ''hi'') s_connected)))"
    by (simp add: s_sent_def to_sent_def run_append s_connected_def)
  have first: "snd (sendMessage env_ok ''u1'' ''5511888888888'' (text_of ''hi'') s_connected) =
      s_connected\<lparr>wire := [(0, ''5511888888888@s.whatsapp.net'', text_of ''hi'')],
                  messages_tbl := [\<lparr>clinic_id = ''clinic1'', patient_id = None,
                     phone = ''5511888888888'', msg_type = outbound, content = ''hi'',
                     message_status = ''sent'', whatsapp_message_id = Some ''3EB0A1''\<rparr>]\<rparr>"
    by (simp add: s_connected_eq text_of_def model_defs env_ok_def)
  show ?thesis
    unfolding split first
    by (simp add: s_connected_eq text_of_def model_defs env_ok_def env_second_def)
qed

text \<open>
  C7 at an input where the code departs from it. The table holds the record of the
  message \<open>3EB0A1\<close>, with the status \<open>sent\<close>. A status update for that id with the
  status \<open>ERROR\<close>, whose number is 0, leaves the whole state as it was: the test
  \<open>if (msg.update?.status)\<close> takes the status for absent, and \<open>updateMessageStatus\<close> is not
  called. The same update with the status \<open>READ\<close> (4) reaches the store and changes that
  record and no other.
\<close>

theorem C7_error_status_dropped:
  "map whatsapp_message_id (messages_tbl s_sent) = [Some ''3EB0A1'', Some ''3EB0B2'']
   \<and> map message_status (messages_tbl s_sent) = [''sent'', ''sent'']
   \<and> handle_status_update env_ok \<lparr>mu_key_id = Some ''3EB0A1'', mu_status = Some 0\<rparr> s_sent
       = s_sent
   \<and> map message_status (messages_tbl (handle_status_update env_ok
          \<lparr>mu_key_id = Some ''3EB0A1'', mu_status = Some 0\<rparr> s_sent)) = [''sent'', ''sent'']
   \<and> map message_status (messages_tbl (handle_status_update env_ok
          \<lparr>mu_key_id = Some ''3EB0A1'', mu_status = Some 4\<rparr> s_sent)) = [''4'', ''sent'']"
  by (simp add: s_sent_eq handle_status_update_def updateMessageStatus_def env_ok_def
        toString.simps)

section \<open>C8: single send\<close>

text \<open>
  C8, as stated, fails for a tenant without a profile row: \<open>sendMessage\<close> persists only
  inside \<open>if (profile)\<close>. The connected tenant of the empty store sends; the socket is
  called, the result is a success with the message id, and the message table is still
  empty.
\<close>

theorem C8_counterexample:
  "map_option isConnected (connections s_connected_empty ''u1'') = Some True
   \<and> messages_tbl s_connected_empty = []
   \<and> fst (sendMessage env_ok ''u1'' ''5511888888888'' (text_of ''hi'') s_connected_empty) =
       \<lparr>sr_success = True, sr_messageId = Some ''3EB0A1'', sr_error = None\<rparr>
   \<and> wire (snd (sendMessage env_ok ''u1'' ''5511888888888'' (text_of ''hi'') s_connected_empty)) =
       [(0, ''5511888888888@s.whatsapp.net'', text_of ''hi'')]
   \<and> messages_tbl (snd (sendMessage env_ok ''u1'' ''5511888888888'' (text_of ''hi'')
        s_connected_empty)) = []"
  by (simp add: s_connected_empty_eq sendMessage_def getUserProfile_def env_ok_def
        includes_at_def Let_def)

text \<open>
  C8, amended: every single send that returns success was made on a connected session,
  called the socket's send once with the normalised address, and returns the message id
  the socket gave; when the tenant's profile is found, exactly one record is appended,
  outbound and sent, with that id; when it is not found, no record is written.
\<close>

theorem C8_send_success:
  assumes "sendMessage e u to c w = (r, w')" and "sr_success r"
  shows "\<exists>conn sentId.
           connections w u = Some conn \<and> isConnected conn
         \<and> socket_sendMessage e = send_returns sentId
         \<and> r = \<lparr>sr_success = True, sr_messageId = sentId, sr_error = None\<rparr>
         \<and> wire w' = wire w @
               [(socket conn, if includes_at to then to else to @ ''@s.whatsapp.net'', c)]
         \<and> messages_tbl w' =
               (case getUserProfile e u w of
                  None \<Rightarrow> messages_tbl w
                | Some profile \<Rightarrow> messages_tbl w @
                    [\<lparr>clinic_id = profile_id profile, patient_id = None, phone = to,
                      msg_type = outbound, content = messageText c,
                      message_status = ''sent'', whatsapp_message_id = sentId\<rparr>])"
  using assms
  by (auto simp: sendMessage_def Let_def getUserProfile_def saveMessage_def
        split: option.splits send_outcome.splits if_splits)

theorem C8_witness:
  "sendMessage env_ok ''u1'' ''5511888888888'' (text_of ''hi'') s_connected =
     (\<lparr>sr_success = True, sr_messageId = Some ''3EB0A1'', sr_error = None\<rparr>,
      s_connected\<lparr>wire := [(0, ''5511888888888@s.whatsapp.net'', text_of ''hi'')],
                  messages_tbl := [\<lparr>clinic_id = ''clinic1'', patient_id = None,
                     phone = ''5511888888888'', msg_type = outbound, content = ''hi'',
                     message_status = ''sent'', whatsapp_message_id = Some ''3EB0A1''\<rparr>]\<rparr>)
   \<and> sr_success \<lparr>sr_success = True, sr_messageId = Some ''3EB0A1'', sr_error = None\<rparr>
   \<and> map_option isConnected (connections s_connected ''u1'') = Some True
   \<and> socket_sendMessage env_ok = send_returns (Some ''3EB0A1'')"
proof -
  have run: "sendMessage env_ok ''u1'' ''5511888888888'' (text_of ''hi'') s_connected =
     (\<lparr>sr_success = True, sr_messageId = Some ''3EB0A1'', sr_error = None\<rparr>,
      s_connected\<lparr>wire := [(0, ''5511888888888@s.whatsapp.net'', text_of ''hi'')],
                  messages_tbl := [\<lparr>clinic_id = ''clinic1'', patient_id = None,
                     phone = ''5511888888888'', msg_type = outbound, content = ''hi'',
                     message_status = ''sent'', whatsapp_message_id = Some ''3EB0A1''\<rparr>]\<rparr>)"
    by (simp add: s_connected_eq text_of_def model_defs env_ok_def)
  from C8_send_success [OF run] show ?thesis
    using run by (simp add: s_connected_eq env_ok_def)
qed

section \<open>C4: bulk send\<close>

lemma bulk_loop_Cons:
  "bulk_loop es i u msg d (r # rs) w =
     (\<lparr>recipient = r,
       outcome = fst (sendMessage (es i) u r \<lparr>text_field = Some msg, caption_field = None\<rparr> w)\<rparr>
        # fst (bulk_loop es (Suc i) u msg d rs
                 (snd (sendMessage (es i) u r \<lparr>text_field = Some msg, caption_field = None\<rparr> w))),
      steps_for d r @ fst (snd (bulk_loop es (Suc i) u msg d rs
                 (snd (sendMessage (es i) u r \<lparr>text_field = Some msg, caption_field = None\<rparr> w)))),
      snd (snd (bulk_loop es (Suc i) u msg d rs
                 (snd (sendMessage (es i) u r \<lparr>text_field = Some msg, caption_field = None\<rparr> w)))))"
  by (simp add: case_prod_beta Let_def steps_for_def)

lemma bulk_loop_recipients:
  "map recipient (fst (bulk_loop es i u msg d rs w)) = rs"
  by (induction rs arbitrary: i w) (simp_all add: bulk_loop_Cons del: bulk_loop.simps(2))

lemma bulk_loop_steps:
  "fst (snd (bulk_loop es i u msg d rs w)) = concat (map (steps_for d) rs)"
  by (induction rs arbitrary: i w) (simp_all add: bulk_loop_Cons del: bulk_loop.simps(2))

lemma bulk_loop_nth:
  "k < length rs \<Longrightarrow>
   outcome (fst (bulk_loop es i u msg d rs w) ! k) =
     fst (sendMessage (es (i + k)) u (rs ! k) \<lparr>text_field = Some msg, caption_field = None\<rparr>
            (snd (snd (bulk_loop es i u msg d (take k rs) w))))"
proof (induction rs arbitrary: i w k)
  case Nil
  then show ?case by simp
next
  case (Cons r rs)
  show ?case
  proof (cases k)
    case 0
    then show ?thesis by (simp add: bulk_loop_Cons del: bulk_loop.simps(2))
  next
    case (Suc j)
    with Cons.prems have "j < length rs" by simp
    from Cons.IH [OF this, of "Suc i"] Suc show ?thesis
      by (simp add: bulk_loop_Cons del: bulk_loop.simps(2))
  qed
qed

lemma bulk_ops_Cons:
  "bulk_ops es i u msg (r # rs) =
     (es i, op_send u r \<lparr>text_field = Some msg, caption_field = None\<rparr>)
       # bulk_ops es (Suc i) u msg rs"
  by (simp add: bulk_ops_def)

lemma bulk_loop_state:
  "snd (snd (bulk_loop es i u msg d rs w)) = run (bulk_ops es i u msg rs) w"
  by (induction rs arbitrary: i w)
     (simp_all add: bulk_loop_Cons bulk_ops_Cons bulk_ops_def del: bulk_loop.simps(2))

text \<open>What one send puts on the wire, for a connected tenant.\<close>

lemma sendMessage_wire:
  assumes "connections w u = Some conn" and "isConnected conn"
  shows "wire (snd (sendMessage e u to c w)) =
           wire w @ (if socket_sendMessage e = send_throws then []
                     else [(socket conn, if includes_at to then to else to @ ''@s.whatsapp.net'', c)])"
  using assms
  by (auto simp: sendMessage_def Let_def getUserProfile_def saveMessage_def
        split: option.splits send_outcome.splits)

lemma bulk_run_wire:
  assumes "connections w u = Some conn" and "isConnected conn"
  shows "wire (run (bulk_ops es i u msg rs) w) =
           wire w @ map (\<lambda>(k, r). (socket conn,
                                  if includes_at r then r else r @ ''@s.whatsapp.net'',
                                  \<lparr>text_field = Some msg, caption_field = None\<rparr>))
                        (filter (\<lambda>(k, r). socket_sendMessage (es k) \<noteq> send_throws)
                                (enumerate i rs))"
  using assms
proof (induction rs arbitrary: i w)
  case Nil
  then show ?case by (simp add: bulk_ops_def)
next
  case (Cons r rs)
  let ?c = "\<lparr>text_field = Some msg, caption_field = None\<rparr>"
  let ?w1 = "snd (sendMessage (es i) u r ?c w)"
  have conn1: "connections ?w1 u = Some conn"
    using Cons.prems(1) by simp
  from Cons.IH [OF conn1 Cons.prems(2), of "Suc i"]
       sendMessage_wire [OF Cons.prems, of "es i" r ?c]
  show ?case
    by (simp add: bulk_ops_Cons)
qed

text \<open>
  C4: for a request that passes the route's validation (tenant, recipient array and
  message present), with \<open>delayMs\<close> the delay of the body or 1000 when it has none: the
  route answers with one result entry per destination, in the order of the list; the
  \<open>sent\<close> count is the number of entries that succeeded, the \<open>failed\<close> count the number
  of the others, and they add up to the number of destinations; what the loop awaits is,
  for each destination in turn, one call of \<open>sendMessage\<close> followed by one sleep of
  \<open>delayMs\<close> when \<open>delayMs > 0\<close>; the state the route leaves is the state that the
  single sends to the destinations, made one after the other in the order of the list,
  leave; the entry of destination \<open>k\<close> is the result of the single send made in the state
  the first \<open>k\<close> sends left, whatever their results were; and for a connected tenant the
  socket has been called for every destination, in order, those calls that returned
  being on the wire.
\<close>

theorem C4_bulk_send:
  assumes "truthy (req_userId req)" and "req_recipients req = Some rs"
      and "truthy (req_message req)"
      and "delayMs = (case req_delay req of None \<Rightarrow> 1000 | Some d \<Rightarrow> d)"
  shows "\<exists>results.
           send_bulk es req w =
             (ok_response (length (filter (\<lambda>r. sr_success (outcome r)) results))
                          (length (filter (\<lambda>r. \<not> sr_success (outcome r)) results))
                          results,
              concat (map (steps_for delayMs) rs),
              run (bulk_ops es 0 (the (req_userId req)) (the (req_message req)) rs) w)
         \<and> map recipient results = rs
         \<and> length (filter (\<lambda>r. sr_success (outcome r)) results)
             + length (filter (\<lambda>r. \<not> sr_success (outcome r)) results) = length rs
         \<and> (\<forall>k < length rs.
               outcome (results ! k) =
                 fst (sendMessage (es k) (the (req_userId req)) (rs ! k)
                        \<lparr>text_field = req_message req, caption_field = None\<rparr>
                        (run (bulk_ops es 0 (the (req_userId req)) (the (req_message req))
                                (take k rs)) w)))
         \<and> (\<forall>conn. connections w (the (req_userId req)) = Some conn \<and> isConnected conn \<longrightarrow>
               wire (run (bulk_ops es 0 (the (req_userId req)) (the (req_message req)) rs) w) =
                 wire w @ map (\<lambda>(k, r). (socket conn,
                                        if includes_at r then r else r @ ''@s.whatsapp.net'',
                                        \<lparr>text_field = req_message req, caption_field = None\<rparr>))
                              (filter (\<lambda>(k, r). socket_sendMessage (es k) \<noteq> send_throws)
                                      (enumerate 0 rs)))"
proof -
  obtain u where u: "req_userId req = Some u"
    using assms(1) by (cases "req_userId req") (auto simp: truthy_def)
  obtain msg where msg: "req_message req = Some msg"
    using assms(3) by (cases "req_message req") (auto simp: truthy_def)
  obtain results steps w' where loop: "bulk_loop es 0 u msg delayMs rs w = (results, steps, w')"
    by (cases "bulk_loop es 0 u msg delayMs rs w") auto
  have rec: "map recipient results = rs"
    using bulk_loop_recipients [of es 0 u msg delayMs rs w] loop by simp
  have st: "steps = concat (map (steps_for delayMs) rs)"
    using bulk_loop_steps [of es 0 u msg delayMs rs w] loop by simp
  have fin: "w' = run (bulk_ops es 0 u msg rs) w"
    using bulk_loop_state [of es 0 u msg delayMs rs w] loop by simp
  have len: "length results = length rs"
    using rec by (metis length_map)
  have nth: "\<forall>k < length rs. outcome (results ! k) =
      fst (sendMessage (es k) u (rs ! k) \<lparr>text_field = Some msg, caption_field = None\<rparr>
             (run (bulk_ops es 0 u msg (take k rs)) w))"
    using bulk_loop_nth [of _ rs es 0 u msg delayMs w] loop
    by (simp add: bulk_loop_state)
  have out: "send_bulk es req w =
        (ok_response (length (filter (\<lambda>r. sr_success (outcome r)) results))
                     (length (filter (\<lambda>r. \<not> sr_success (outcome r)) results))
                     results, steps, w')"
    using assms u msg loop by (simp add: send_bulk_def)
  have total: "length (filter (\<lambda>r. sr_success (outcome r)) results)
             + length (filter (\<lambda>r. \<not> sr_success (outcome r)) results) = length rs"
    using sum_length_filter_compl [of "\<lambda>r. sr_success (outcome r)" results] len by simp
  have wires: "\<forall>conn. connections w u = Some conn \<and> isConnected conn \<longrightarrow>
      wire (run (bulk_ops es 0 u msg rs) w) =
        wire w @ map (\<lambda>(k, r). (socket conn,
                               if includes_at r then r else r @ ''@s.whatsapp.net'',
                               \<lparr>text_field = Some msg, caption_field = None\<rparr>))
                     (filter (\<lambda>(k, r). socket_sendMessage (es k) \<noteq> send_throws)
                             (enumerate 0 rs))"
    using bulk_run_wire [of w u _ es 0 msg rs] by blast
  show ?thesis
    using out rec st fin total nth wires u msg by auto
qed

text \<open>
  The scenario of the specification: two destinations, delay 0, the second send fails:
  one sent, one failed, two entries. With no delay in the body, 1000 ms after each send.
\<close>

theorem C4_witness:
  "truthy (req_userId (bulk_two (Some 0)))
   \<and> req_recipients (bulk_two (Some 0)) = Some [''111'', ''222'']
   \<and> truthy (req_message (bulk_two (Some 0)))
   \<and> fst (send_bulk second_send_fails (bulk_two (Some 0)) s_connected) =
       ok_response 1 1
         [\<lparr>recipient = ''111'',
           outcome = \<lparr>sr_success = True, sr_messageId = Some ''3EB0A1'', sr_error = None\<rparr>\<rparr>,
          \<lparr>recipient = ''222'',
           outcome = \<lparr>sr_success = False, sr_messageId = None,
                      sr_error = Some ''Failed to send message''\<rparr>\<rparr>]
   \<and> fst (snd (send_bulk second_send_fails (bulk_two (Some 0)) s_connected)) =
       [dispatch ''111'', dispatch ''222'']
   \<and> fst (snd (send_bulk second_send_fails (bulk_two None) s_connected)) =
       [dispatch ''111'', sleep 1000, dispatch ''222'', sleep 1000]
   \<and> wire (snd (snd (send_bulk second_send_fails (bulk_two (Some 0)) s_connected))) =
       [(0, ''111@s.whatsapp.net'', \<lparr>text_field = Some ''hi'', caption_field = None\<rparr>)]
   \<and> map phone (messages_tbl (snd (snd
         (send_bulk second_send_fails (bulk_two (Some 0)) s_connected)))) = [''111'']"
proof -
  let ?hi = "\<lparr>text_field = Some ''hi'', caption_field = None\<rparr>"
  let ?s1 = "s_connected\<lparr>wire := [(0, ''111@s.whatsapp.net'', ?hi)],
                messages_tbl := [\<lparr>clinic_id = ''clinic1'', patient_id = None,
                   phone = ''111'', msg_type = outbound, content = ''hi'',
                   message_status = ''sent'', whatsapp_message_id = Some ''3EB0A1''\<rparr>]\<rparr>"
  have one: "sendMessage env_ok ''u1'' ''111'' ?hi s_connected =
      (\<lparr>sr_success = True, sr_messageId = Some ''3EB0A1'', sr_error = None\<rparr>, ?s1)"
    by (simp add: s_connected_eq model_defs env_ok_def)
  have two: "sendMessage env_send_fails ''u1'' ''222'' ?hi ?s1 =
      (\<lparr>sr_success = False, sr_messageId = None, sr_error = Some ''Failed to send message''\<rparr>,
       ?s1)"
    by (simp add: s_connected_eq model_defs env_ok_def env_send_fails_def)
  have loop: "bulk_loop second_send_fails 0 ''u1'' ''hi'' d [''111'', ''222''] s_connected =
      ([\<lparr>recipient = ''111'',
         outcome = \<lparr>sr_success = True, sr_messageId = Some ''3EB0A1'', sr_error = None\<rparr>\<rparr>,
        \<lparr>recipient = ''222'',
         outcome = \<lparr>sr_success = False, sr_messageId = None,
                    sr_error = Some ''Failed to send message''\<rparr>\<rparr>],
       steps_for d ''111'' @ steps_for d ''222'', ?s1)" for d
    by (simp add: bulk_loop_Cons second_send_fails_def one two del: bulk_loop.simps(2))
  have req: "truthy (req_userId (bulk_two d))" "req_recipients (bulk_two d) = Some [''111'', ''222'']"
      "truthy (req_message (bulk_two d))" for d
    by (simp_all add: bulk_two_def truthy_def)
  have zero: "fst (snd (send_bulk second_send_fails (bulk_two (Some 0)) s_connected)) =
       [dispatch ''111'', dispatch ''222'']"
    using C4_bulk_send [OF req, of 0 "Some 0" second_send_fails s_connected]
    by (auto simp: bulk_two_def steps_for_def)
  have dflt: "fst (snd (send_bulk second_send_fails (bulk_two None) s_connected)) =
       [dispatch ''111'', sleep 1000, dispatch ''222'', sleep 1000]"
    using C4_bulk_send [OF req, of 1000 None second_send_fails s_connected]
    by (auto simp: bulk_two_def steps_for_def)
  have res: "fst (send_bulk second_send_fails (bulk_two (Some 0)) s_connected) =
       ok_response 1 1
         [\<lparr>recipient = ''111'',
           outcome = \<lparr>sr_success = True, sr_messageId = Some ''3EB0A1'', sr_error = None\<rparr>\<rparr>,
          \<lparr>recipient = ''222'',
           outcome = \<lparr>sr_success = False, sr_messageId = None,
                      sr_error = Some ''Failed to send message''\<rparr>\<rparr>]"
    by (simp add: send_bulk_def bulk_two_def truthy_def loop del: bulk_loop.simps)
  have fin: "snd (snd (send_bulk second_send_fails (bulk_two (Some 0)) s_connected)) = ?s1"
    by (simp add: send_bulk_def bulk_two_def truthy_def loop del: bulk_loop.simps)
  have on_wire: "wire ?s1 = [(0, ''111@s.whatsapp.net'', ?hi)]"
    by simp
  have recs: "map phone (messages_tbl ?s1) = [''111'']"
    by simp
  show ?thesis
    using req zero dflt res fin on_wire recs by simp
qed

section \<open>C9: restoring sessions at start\<close>

lemma useMultiFileAuthState_sessions:
  "useMultiFileAuthState u w = Some w1 \<Longrightarrow> sessions_tbl w1 = sessions_tbl w"
  by (auto simp: useMultiFileAuthState_def
        split: option.splits fs_kind.splits if_splits list.splits)

lemma connectUser_frame [simp]:
  "sessions_tbl (snd (connectUser e u w)) = sessions_tbl w"
  by (auto simp: connectUser_def dest!: useMultiFileAuthState_sessions split: option.splits)

lemma connectUser_disk_dir:
  "stat_path (session_dir u) (disk w) = Some fs_dir \<Longrightarrow> disk (snd (connectUser e u w)) = disk w"
  by (simp add: connectUser_def useMultiFileAuthState_def split: option.splits)

lemma connectUser_keeps:
  "connections w v \<noteq> None \<Longrightarrow> connections (snd (connectUser e u w)) v \<noteq> None"
  by (auto simp: connectUser_def dest!: useMultiFileAuthState_connections split: option.splits)

lemma connectUser_changes:
  "connections (snd (connectUser e u w)) v \<noteq> connections w v \<Longrightarrow>
   v = u \<and> \<not> engine_open_throws e"
  by (auto simp: connectUser_def dest!: useMultiFileAuthState_connections
        split: option.splits if_splits)

lemma connectUser_dir_session:
  "stat_path (session_dir u) (disk w) = Some fs_dir \<Longrightarrow> \<not> engine_open_throws e \<Longrightarrow>
   connections (snd (connectUser e u w)) u \<noteq> None"
  by (auto simp: connectUser_def useMultiFileAuthState_def split: option.splits)

text \<open>\<open>statSync\<close> of a listed name finds something, unless it throws.\<close>

lemma stat_listed:
  assumes "entry \<in> set d"
  shows "stat_path (session_dir (fst entry)) d \<noteq> None"
proof (cases "at_or_below (session_dir (fst entry)) sessionsPath")
  case True
  then show ?thesis by (simp add: stat_path_def)
next
  case False
  from assms have "session_dir (fst entry)
      \<in> fst ` set (map (\<lambda>entry. (session_dir (fst entry), snd entry)) d)"
    by force
  then have "map_of (map (\<lambda>entry. (session_dir (fst entry), snd entry)) d)
               (session_dir (fst entry)) \<noteq> None"
    by (simp only: map_of_eq_None_iff not_not)
  with False show ?thesis by (simp add: stat_path_def)
qed

text \<open>The step of the loop that reconnects, and the steps that pass on.\<close>

lemma restore_loop_connect:
  assumes "restorable (es i) u w"
  shows "restore_loop es i (u # us) w =
           restore_loop es (Suc i) us (snd (connectUser (es i) u w))"
  using assms by (auto simp: restorable_def split: option.splits)

lemma restore_loop_skip:
  assumes "\<not> restorable (es i) u w"
  shows "restore_loop es i (u # us) w = w \<or>
         restore_loop es i (u # us) w = restore_loop es (Suc i) us w"
  using assms by (auto simp: restorable_def split: option.splits fs_kind.splits)

lemma restore_loop_pass:
  assumes "\<not> restorable (es i) u w" and "\<not> stat_throws (es i)"
      and "stat_path (session_dir u) (disk w) \<noteq> None"
  shows "restore_loop es i (u # us) w = restore_loop es (Suc i) us w"
  using assms by (auto simp: restorable_def split: option.splits fs_kind.splits)

lemma restorable_frame:
  "disk w' = disk w \<Longrightarrow> sessions_tbl w' = sessions_tbl w \<Longrightarrow>
   restorable e u w' = restorable e u w"
  by (simp add: restorable_def getSession_def)

lemma restore_loop_keeps:
  "connections w v \<noteq> None \<Longrightarrow> connections (restore_loop es i us w) v \<noteq> None"
proof (induction us arbitrary: i w)
  case Nil
  then show ?case by simp
next
  case (Cons u us)
  from Cons.prems show ?case
    by (simp add: Cons.IH connectUser_keeps del: not_None_eq
          split: option.splits fs_kind.splits)
qed

lemma restore_loop_only:
  "connections (restore_loop es i us w) v \<noteq> connections w v \<Longrightarrow>
   \<exists>k < length us. us ! k = v \<and> restorable (es (i + k)) v w \<and> \<not> engine_open_throws (es (i + k))"
proof (induction us arbitrary: i w)
  case Nil
  then show ?case by simp
next
  case (Cons u us)
  have shift: "\<exists>k < length (u # us). (u # us) ! k = v \<and> restorable (es (i + k)) v w
                 \<and> \<not> engine_open_throws (es (i + k))"
    if "\<exists>k < length us. us ! k = v \<and> restorable (es (Suc i + k)) v w
                 \<and> \<not> engine_open_throws (es (Suc i + k))"
  proof -
    from that obtain k where "k < length us" "us ! k = v" "restorable (es (Suc i + k)) v w"
        "\<not> engine_open_throws (es (Suc i + k))" by blast
    then have "Suc k < length (u # us) \<and> (u # us) ! Suc k = v \<and> restorable (es (i + Suc k)) v w
                 \<and> \<not> engine_open_throws (es (i + Suc k))" by simp
    then show ?thesis by blast
  qed
  show ?case
  proof (cases "restorable (es i) u w")
    case False
    from restore_loop_skip [where es = es and i = i and us = us, OF False] Cons.prems
    have "connections (restore_loop es (Suc i) us w) v \<noteq> connections w v"
      by auto
    from Cons.IH [OF this] show ?thesis by (rule shift)
  next
    case True
    let ?w1 = "snd (connectUser (es i) u w)"
    note step = restore_loop_connect [where es = es and i = i and us = us, OF True]
    from True have frame: "disk ?w1 = disk w" "sessions_tbl ?w1 = sessions_tbl w"
      by (simp_all add: restorable_def connectUser_disk_dir)
    show ?thesis
    proof (cases "connections (restore_loop es (Suc i) us ?w1) v = connections ?w1 v")
      case False
      from Cons.IH [OF this] have "\<exists>k < length us. us ! k = v
            \<and> restorable (es (Suc i + k)) v w \<and> \<not> engine_open_throws (es (Suc i + k))"
        by (simp add: restorable_frame [OF frame])
      then show ?thesis by (rule shift)
    next
      case same: True
      with Cons.prems step have "connections ?w1 v \<noteq> connections w v" by simp
      from connectUser_changes [OF this] have "v = u" "\<not> engine_open_throws (es i)" by simp_all
      with True have "0 < length (u # us) \<and> (u # us) ! 0 = v \<and> restorable (es (i + 0)) v w
            \<and> \<not> engine_open_throws (es (i + 0))"
        by simp
      then show ?thesis by blast
    qed
  qed
qed

lemma restore_loop_all:
  "k < length us \<Longrightarrow>
   (\<And>j. j < k \<Longrightarrow> \<not> stat_throws (es (i + j)) \<and> stat_path (session_dir (us ! j)) (disk w) \<noteq> None) \<Longrightarrow>
   restorable (es (i + k)) (us ! k) w \<Longrightarrow> \<not> engine_open_throws (es (i + k)) \<Longrightarrow>
   connections (restore_loop es i us w) (us ! k) \<noteq> None"
proof (induction us arbitrary: i w k)
  case Nil
  then show ?case by simp
next
  case (Cons u us)
  let ?w1 = "snd (connectUser (es i) u w)"
  show ?case
  proof (cases k)
    case 0
    with Cons.prems have r: "restorable (es i) u w" and ok: "\<not> engine_open_throws (es i)"
      by simp_all
    note step = restore_loop_connect [where es = es and i = i and us = us, OF r]
    from r ok have "connections ?w1 u \<noteq> None"
      by (simp add: restorable_def connectUser_dir_session del: not_None_eq)
    then have "connections (restore_loop es (Suc i) us ?w1) u \<noteq> None"
      by (rule restore_loop_keeps)
    with step 0 show ?thesis by simp
  next
    case (Suc j)
    with Cons.prems have j: "j < length us" and r: "restorable (es (Suc i + j)) (us ! j) w"
      and ok: "\<not> engine_open_throws (es (Suc i + j))" by simp_all
    from Cons.prems(2) [of 0] Suc
    have first: "\<not> stat_throws (es i)" "stat_path (session_dir u) (disk w) \<noteq> None"
      by simp_all
    have before: "\<not> stat_throws (es (Suc i + l)) \<and>
                  stat_path (session_dir (us ! l)) (disk w) \<noteq> None" if "l < j" for l
      using Cons.prems(2) [of "Suc l"] that Suc by simp
    show ?thesis
    proof (cases "restorable (es i) u w")
      case False
      from restore_loop_pass [where es = es and i = i and us = us, OF False first]
      have step: "restore_loop es i (u # us) w = restore_loop es (Suc i) us w" .
      from Cons.IH [OF j before r ok] step Suc show ?thesis by simp
    next
      case True
      note step = restore_loop_connect [where es = es and i = i and us = us, OF True]
      from True have frame: "disk ?w1 = disk w" "sessions_tbl ?w1 = sessions_tbl w"
        by (simp_all add: restorable_def connectUser_disk_dir)
      have before1: "\<not> stat_throws (es (Suc i + l)) \<and>
                     stat_path (session_dir (us ! l)) (disk ?w1) \<noteq> None" if "l < j" for l
        using before [OF that] by (simp add: frame)
      from r have r1: "restorable (es (Suc i + j)) (us ! j) ?w1"
        by (simp add: restorable_frame [OF frame])
      from Cons.IH [OF j before1 r1 ok] step Suc show ?thesis by simp
    qed
  qed
qed

text \<open>
  C9, as stated, fails when \<open>statSync\<close> throws for a listed entry: the only \<open>catch\<close> of
  \<open>restoreActiveSessions\<close> is around the loop, so the loop ends there. Of five entries
  the first cannot be read; \<open>u1\<close>, listed after it, is a directory whose stored session
  reads connected, the engine would open for it, and it has no session after the
  restore.
\<close>

theorem C9_counterexample:
  "map fst (disk s_boot_many) = [''u0'', ''notes.txt'', ''u1'', ''u2'', ''u3'']
   \<and> stat_throws (first_stat_fails 0)
   \<and> restorable (first_stat_fails 2) ''u1'' s_boot_many
   \<and> \<not> engine_open_throws (first_stat_fails 2)
   \<and> connections (restoreActiveSessions first_stat_fails s_boot_many) ''u1'' = None
   \<and> restoreActiveSessions first_stat_fails s_boot_many = s_boot_many"
  by (simp add: restoreActiveSessions_def s_boot_many_def boot_def first_stat_fails_def
        env_stat_fails_def env_ok_def restorable_def getSession_def stat_path_def
        at_or_below_def sessionsPath_def session_dir_names)

text \<open>
  C9, amended: after \<open>restoreActiveSessions\<close>, a tenant whose registry entry differs
  from the one before is listed in the sessions directory, \<open>statSync\<close> answered for it
  with a directory, its stored session reads connected, and opening the engine did not
  fail for it; and every listed tenant of that kind for which opening the engine does
  not fail has a session afterwards, whatever the status lookup and the connection
  attempt did for the other tenants, provided \<open>statSync\<close> did not throw for an entry
  listed before it.
\<close>

theorem C9_restore:
  "(\<forall>u. connections (restoreActiveSessions es w) u \<noteq> connections w u \<longrightarrow>
        (\<exists>k < length (disk w). fst (disk w ! k) = u \<and> restorable (es k) u w
              \<and> \<not> engine_open_throws (es k)))
   \<and> (\<forall>k < length (disk w).
        (\<forall>j < k. \<not> stat_throws (es j)) \<and>
        restorable (es k) (fst (disk w ! k)) w \<and> \<not> engine_open_throws (es k) \<longrightarrow>
        connections (restoreActiveSessions es w) (fst (disk w ! k)) \<noteq> None)"
proof (intro conjI allI impI)
  fix u
  assume "connections (restoreActiveSessions es w) u \<noteq> connections w u"
  then have "connections (restore_loop es 0 (map fst (disk w)) w) u \<noteq> connections w u"
    by (simp add: restoreActiveSessions_def)
  from restore_loop_only [OF this]
  show "\<exists>k < length (disk w). fst (disk w ! k) = u \<and> restorable (es k) u w
              \<and> \<not> engine_open_throws (es k)"
    by auto
next
  fix k
  assume k: "k < length (disk w)"
     and hyp: "(\<forall>j < k. \<not> stat_throws (es j)) \<and>
               restorable (es k) (fst (disk w ! k)) w \<and> \<not> engine_open_throws (es k)"
  have listed: "\<not> stat_throws (es (0 + j)) \<and>
                stat_path (session_dir (map fst (disk w) ! j)) (disk w) \<noteq> None" if "j < k" for j
  proof -
    from that k have "disk w ! j \<in> set (disk w)" by simp
    from stat_listed [OF this] that k hyp show ?thesis by simp
  qed
  from hyp k have r: "restorable (es (0 + k)) (map fst (disk w) ! k) w"
        and ok: "\<not> engine_open_throws (es (0 + k))" by simp_all
  from k have len: "k < length (map fst (disk w))" by simp
  from restore_loop_all [OF len listed r ok] k
  show "connections (restoreActiveSessions es w) (fst (disk w ! k)) \<noteq> None"
    by (simp add: restoreActiveSessions_def del: not_None_eq)
qed

text \<open>
  Five entries: \<open>u0\<close> (connected, the engine fails to open), a file, \<open>u1\<close> (connected),
  \<open>u2\<close> (not connected), \<open>u3\<close> (connected). \<open>u1\<close> and \<open>u3\<close> are restored.
\<close>

lemma restored_many:
  "connections (restoreActiveSessions first_open_fails s_boot_many) =
     [''u1'' \<mapsto> \<lparr>socket = 0, qr = None, isConnected = False, userId = ''u1'',
                  phoneNumber = None\<rparr>,
      ''u3'' \<mapsto> \<lparr>socket = 1, qr = None, isConnected = False, userId = ''u3'',
                  phoneNumber = None\<rparr>]"
  by (simp add: restoreActiveSessions_def s_boot_many_def boot_def first_open_fails_def
        env_open_fails_def env_ok_def getSession_def connectUser_def
        useMultiFileAuthState_def stat_path_def at_or_below_def sessionsPath_def
        session_dir_names)

theorem C9_witness:
  "length (disk s_boot_many) = 5
   \<and> \<not> stat_throws (first_open_fails 0) \<and> \<not> stat_throws (first_open_fails 1)
   \<and> \<not> stat_throws (first_open_fails 2) \<and> \<not> stat_throws (first_open_fails 3)
   \<and> fst (disk s_boot_many ! 0) = ''u0'' \<and> restorable (first_open_fails 0) ''u0'' s_boot_many
   \<and> engine_open_throws (first_open_fails 0)
   \<and> connections (restoreActiveSessions first_open_fails s_boot_many) ''u0'' = None
   \<and> fst (disk s_boot_many ! 2) = ''u1'' \<and> restorable (first_open_fails 2) ''u1'' s_boot_many
   \<and> \<not> engine_open_throws (first_open_fails 2)
   \<and> connections (restoreActiveSessions first_open_fails s_boot_many) ''u1'' \<noteq> None
   \<and> fst (disk s_boot_many ! 3) = ''u2'' \<and> \<not> restorable (first_open_fails 3) ''u2'' s_boot_many
   \<and> connections (restoreActiveSessions first_open_fails s_boot_many) ''u2'' = None
   \<and> fst (disk s_boot_many ! 4) = ''u3'' \<and> restorable (first_open_fails 4) ''u3'' s_boot_many
   \<and> \<not> engine_open_throws (first_open_fails 4)
   \<and> connections (restoreActiveSessions first_open_fails s_boot_many) ''u3'' \<noteq> None"
proof -
  have facts:
    "length (disk s_boot_many) = 5"
    "fst (disk s_boot_many ! 0) = ''u0''" "restorable (first_open_fails 0) ''u0'' s_boot_many"
    "engine_open_throws (first_open_fails 0)"
    "fst (disk s_boot_many ! 2) = ''u1''" "restorable (first_open_fails 2) ''u1'' s_boot_many"
    "\<not> engine_open_throws (first_open_fails 2)"
    "fst (disk s_boot_many ! 3) = ''u2''" "\<not> restorable (first_open_fails 3) ''u2'' s_boot_many"
    "fst (disk s_boot_many ! 4) = ''u3''" "restorable (first_open_fails 4) ''u3'' s_boot_many"
    "\<not> engine_open_throws (first_open_fails 4)"
    by (simp_all add: s_boot_many_def boot_def first_open_fails_def env_open_fails_def
          env_ok_def restorable_def getSession_def stat_path_def at_or_below_def
          sessionsPath_def session_dir_names)
  have stats: "\<not> stat_throws (first_open_fails j)" for j
    by (simp add: first_open_fails_def env_open_fails_def env_ok_def)
  note all = C9_restore [of first_open_fails s_boot_many, THEN conjunct2, rule_format]
  have u1: "connections (restoreActiveSessions first_open_fails s_boot_many) ''u1'' \<noteq> None"
    using all [of 2] facts stats by (simp del: not_None_eq)
  have u3: "connections (restoreActiveSessions first_open_fails s_boot_many) ''u3'' \<noteq> None"
    using all [of 4] facts stats by (simp del: not_None_eq)
  have u0: "connections (restoreActiveSessions first_open_fails s_boot_many) ''u0'' = None"
    by (simp add: restored_many)
  have u2: "connections (restoreActiveSessions first_open_fails s_boot_many) ''u2'' = None"
    by (simp add: restored_many)
  show ?thesis
    using facts stats u0 u1 u2 u3 by (simp del: not_None_eq)
qed

end
